theory Spec2Isabelle
  imports Main "HOL-Library.Word"
begin

unbundle bit_operations_syntax

section \<open>The wallet and node client of erb-client (client/worm\_client.go)\<close>

text \<open>
  The Go package \<open>client\<close> wraps three things: a wallet that signs the textual fields of
  a trade role with a stored private key, a set of JSON-RPC queries to a node, and
  the constructor \<open>NewClient\<close> that builds either. The functions below follow
  \<open>worm_client.go\<close> line by line. What the file imports and does not define
  (go-ethereum's \<open>crypto\<close> and \<open>rpc\<close> packages, \<open>encoding/json\<close>, the repository's
  own \<open>tools.SignHash\<close>) is a parameter of the model, so every theorem holds for any
  behaviour of those libraries.
\<close>

subsection \<open>Bytes, strings and hexutil.Encode\<close>

type_synonym byte = "8 word"

text \<open>
  A Go \<open>string\<close> is a sequence of bytes, here a \<open>string\<close> (a list of 8-bit \<open>char\<close>s).
  The conversion \<open>[]byte(msg)\<close> keeps every byte.
\<close>

definition bytes_of_string :: "string \<Rightarrow> byte list" where
  "bytes_of_string s = map (\<lambda>c. of_nat (of_char c)) s"

text \<open>
  \<open>hexutil.Encode\<close> of go-ethereum: the two bytes \<open>0x\<close>, then \<open>hex.Encode\<close>, which
  writes \<open>hextable[v >> 4]\<close> and \<open>hextable[v & 0x0f]\<close> for every byte \<open>v\<close>.
\<close>

definition hextable :: string where
  "hextable = ''0123456789abcdef''"

definition hex_Encode :: "byte list \<Rightarrow> string" where
  "hex_Encode b = concat (map (\<lambda>v. [hextable ! unat (drop_bit 4 v), hextable ! unat (v AND 15)]) b)"

definition hexutil_Encode :: "byte list \<Rightarrow> string" where
  "hexutil_Encode b = ''0x'' @ hex_Encode b"

subsection \<open>Data\<close>

text \<open>\<open>type Wallet struct { priKey string }\<close> and \<open>type Wormholes struct { Wallet; c *rpc.Client }\<close>;
  a nil connection is \<open>None\<close>.\<close>

record Wallet =
  priKey :: string

record 'c Wormholes =
  Wallet :: Wallet
  c :: "'c option"

text \<open>
  The structs of package \<open>types\<close> that the signing operations fill in, with the fields
  of their struct literals in \<open>worm_client.go\<close>. Field names are constants here, so
  the fields of \<open>Seller1\<close>, \<open>Seller2\<close> and \<open>ExchangerAuth\<close> carry a suffix. A value
  handed to \<open>json.Marshal\<close> (Go's \<open>interface{}\<close>) is one of the four.
\<close>

record Buyer =
  Amount :: string
  NFTAddress :: string
  Exchanger :: string
  BlockNumber :: string
  Seller :: string
  Sig :: string

record Seller1 =
  Amount1 :: string
  NFTAddress1 :: string
  Exchanger1 :: string
  BlockNumber1 :: string
  Sig1 :: string

record Seller2 =
  Amount2 :: string
  Royalty2 :: string
  MetaURL2 :: string
  ExclusiveFlag2 :: string
  Exchanger2 :: string
  BlockNumber2 :: string
  Sig2 :: string

record ExchangerAuth =
  ExchangerOwner :: string
  To :: string
  BlockNumberA :: string
  SigA :: string

datatype payload =
    BuyerValue Buyer
  | Seller1Value Seller1
  | Seller2Value Seller2
  | ExchangerAuthValue ExchangerAuth

text \<open>
  A Go \<open>error\<close> of this program is either the sentinel \<open>ethereum.NotFound\<close> or an error
  made by one of the libraries, kept as the library returned it. Neither \<open>crypto\<close>,
  \<open>rpc\<close> nor \<open>encoding/json\<close> knows the sentinel, so the libraries return the
  payload type \<open>'e\<close> and only this file's code returns \<open>NotFound\<close>.
\<close>

datatype 'e error = NotFound | Lib 'e

text \<open>
  What a call of a Go function with results \<open>(x, err)\<close> does: it returns the pair, either
  part possibly nil, or it panics (an index out of range, a nil pointer).
\<close>

datatype ('a, 'e) returned = Returned "'a option" "'e error option" | Panicked

subsection \<open>The libraries\<close>

text \<open>
  \<^item> \<open>crypto.HexToECDSA\<close> parses a hexadecimal private key;
  \<^item> \<open>crypto.Sign\<close> signs a digest with a key; on success go-ethereum returns 65 bytes
    \<open>R || S || V\<close> with \<open>V\<close> 0 or 1;
  \<^item> \<open>tools.SignHash\<close> is the digest of signable data; its file is not among the
    sources, so it is an arbitrary function here;
  \<^item> \<open>json.Marshal\<close> serialises one of the structs above; the struct tags are declared
    in package \<open>types\<close>, so the encoding is an arbitrary function here.
\<close>

record ('key, 'e) libs =
  crypto_HexToECDSA :: "string \<Rightarrow> 'e + 'key"
  crypto_Sign :: "byte list \<Rightarrow> 'key \<Rightarrow> 'e + byte list"
  tools_SignHash :: "byte list \<Rightarrow> byte list"
  json_Marshal :: "payload \<Rightarrow> 'e + byte list"

text \<open>
  The calls a signing operation makes to \<open>crypto\<close> and \<open>encoding/json\<close>, in the order it
  makes them, are part of its result: a run is the list of calls and what was returned.
\<close>

datatype 'key call =
    Call_HexToECDSA string
  | Call_Sign "byte list" 'key
  | Call_Marshal payload

type_synonym ('key, 'e) run = "'key call list \<times> (byte list, 'e) returned"

definition calling :: "'key call \<Rightarrow> ('key, 'e) run \<Rightarrow> ('key, 'e) run" where
  "calling x r = (x # fst r, snd r)"

text \<open>The arguments of the calls of \<open>crypto.Sign\<close> among a list of calls.\<close>

fun sign_args :: "'key call list \<Rightarrow> (byte list \<times> 'key) list" where
  "sign_args [] = []"
| "sign_args (Call_Sign digest key # xs) = (digest, key) # sign_args xs"
| "sign_args (Call_HexToECDSA s # xs) = sign_args xs"
| "sign_args (Call_Marshal p # xs) = sign_args xs"

definition calls :: "('key, 'e) run \<Rightarrow> 'key call list" where
  "calls r = fst r"

definition outcome :: "('key, 'e) run \<Rightarrow> (byte list, 'e) returned" where
  "outcome r = snd r"

subsection \<open>The signing operations\<close>

text \<open>
  \<open>func (w *Wallet) Sign(data []byte, priKey string) ([]byte, error)\<close>. The key is the
  argument, not the wallet's. \<open>signature[64] += 27\<close> is an addition on \<open>uint8\<close>, and
  an index beyond the slice panics.
\<close>

definition Sign :: "('key, 'e) libs \<Rightarrow> Wallet \<Rightarrow> byte list \<Rightarrow> string \<Rightarrow> ('key, 'e) run" where
  "Sign L w data' priKey' =
     calling (Call_HexToECDSA priKey')
      (case crypto_HexToECDSA L priKey' of
         Inl err \<Rightarrow> ([], Returned None (Some (Lib err)))
       | Inr key \<Rightarrow>
           calling (Call_Sign (tools_SignHash L data') key)
            (case crypto_Sign L (tools_SignHash L data') key of
               Inl err \<Rightarrow> ([], Returned None (Some (Lib err)))
             | Inr signature \<Rightarrow>
                 if length signature \<le> 64 then ([], Panicked)
                 else ([], Returned (Some (signature[64 := signature ! 64 + 27])) None)))"

text \<open>The line \<open>msg := amount + nftAddress + exchanger + blockNumber + seller\<close> of \<open>SignBuyer\<close>
  and its counterparts in the other four operations.\<close>

definition SignBuyer_msg :: "string \<Rightarrow> string \<Rightarrow> string \<Rightarrow> string \<Rightarrow> string \<Rightarrow> string" where
  "SignBuyer_msg amount nftAddress exchanger blockNumber seller =
     amount @ nftAddress @ exchanger @ blockNumber @ seller"

definition SignSeller1_msg :: "string \<Rightarrow> string \<Rightarrow> string \<Rightarrow> string \<Rightarrow> string" where
  "SignSeller1_msg amount nftAddress exchanger blockNumber =
     amount @ nftAddress @ exchanger @ blockNumber"

definition SignSeller2_msg :: "string \<Rightarrow> string \<Rightarrow> string \<Rightarrow> string \<Rightarrow> string \<Rightarrow> string \<Rightarrow> string" where
  "SignSeller2_msg amount royalty metaURL exclusiveFlag exchanger blockNumber =
     amount @ royalty @ metaURL @ exclusiveFlag @ exchanger @ blockNumber"

definition SignExchanger_msg :: "string \<Rightarrow> string \<Rightarrow> string \<Rightarrow> string" where
  "SignExchanger_msg exchangerOwner to blockNumber = exchangerOwner @ to @ blockNumber"

definition SignDelegate_msg :: "string \<Rightarrow> string \<Rightarrow> string" where
  "SignDelegate_msg address pledgeAcoount = address @ pledgeAcoount"

definition SignBuyer ::
  "('key, 'e) libs \<Rightarrow> Wallet \<Rightarrow> string \<Rightarrow> string \<Rightarrow> string \<Rightarrow> string \<Rightarrow> string \<Rightarrow> ('key, 'e) run" where
  "SignBuyer L w amount nftAddress exchanger blockNumber seller =
     calling (Call_HexToECDSA (priKey w))
      (case crypto_HexToECDSA L (priKey w) of
         Inl err \<Rightarrow> ([], Returned None (Some (Lib err)))
       | Inr key \<Rightarrow>
          (let msg = SignBuyer_msg amount nftAddress exchanger blockNumber seller in
           calling (Call_Sign (tools_SignHash L (bytes_of_string msg)) key)
            (case crypto_Sign L (tools_SignHash L (bytes_of_string msg)) key of
               Inl err \<Rightarrow> ([], Returned None (Some (Lib err)))
             | Inr signature \<Rightarrow>
                 if length signature \<le> 64 then ([], Panicked)
                 else
                  (let signature = signature[64 := signature ! 64 + 27];
                       buyer = \<lparr>Amount = amount, NFTAddress = nftAddress, Exchanger = exchanger,
                                BlockNumber = blockNumber, Seller = seller,
                                Sig = hexutil_Encode signature\<rparr> in
                   calling (Call_Marshal (BuyerValue buyer))
                    (case json_Marshal L (BuyerValue buyer) of
                       Inl err \<Rightarrow> ([], Returned None (Some (Lib err)))
                     | Inr result \<Rightarrow> ([], Returned (Some result) None))))))"

definition SignSeller1 ::
  "('key, 'e) libs \<Rightarrow> Wallet \<Rightarrow> string \<Rightarrow> string \<Rightarrow> string \<Rightarrow> string \<Rightarrow> ('key, 'e) run" where
  "SignSeller1 L w amount nftAddress exchanger blockNumber =
     calling (Call_HexToECDSA (priKey w))
      (case crypto_HexToECDSA L (priKey w) of
         Inl err \<Rightarrow> ([], Returned None (Some (Lib err)))
       | Inr key \<Rightarrow>
          (let msg = SignSeller1_msg amount nftAddress exchanger blockNumber in
           calling (Call_Sign (tools_SignHash L (bytes_of_string msg)) key)
            (case crypto_Sign L (tools_SignHash L (bytes_of_string msg)) key of
               Inl err \<Rightarrow> ([], Returned None (Some (Lib err)))
             | Inr signature \<Rightarrow>
                 if length signature \<le> 64 then ([], Panicked)
                 else
                  (let signature = signature[64 := signature ! 64 + 27];
                       seller1 = \<lparr>Amount1 = amount, NFTAddress1 = nftAddress,
                                  Exchanger1 = exchanger, BlockNumber1 = blockNumber,
                                  Sig1 = hexutil_Encode signature\<rparr> in
                   calling (Call_Marshal (Seller1Value seller1))
                    (case json_Marshal L (Seller1Value seller1) of
                       Inl err \<Rightarrow> ([], Returned None (Some (Lib err)))
                     | Inr result \<Rightarrow> ([], Returned (Some result) None))))))"

definition SignSeller2 ::
  "('key, 'e) libs \<Rightarrow> Wallet \<Rightarrow> string \<Rightarrow> string \<Rightarrow> string \<Rightarrow> string \<Rightarrow> string \<Rightarrow> string
     \<Rightarrow> ('key, 'e) run" where
  "SignSeller2 L w amount royalty metaURL exclusiveFlag exchanger blockNumber =
     calling (Call_HexToECDSA (priKey w))
      (case crypto_HexToECDSA L (priKey w) of
         Inl err \<Rightarrow> ([], Returned None (Some (Lib err)))
       | Inr key \<Rightarrow>
          (let msg = SignSeller2_msg amount royalty metaURL exclusiveFlag exchanger blockNumber in
           calling (Call_Sign (tools_SignHash L (bytes_of_string msg)) key)
            (case crypto_Sign L (tools_SignHash L (bytes_of_string msg)) key of
               Inl err \<Rightarrow> ([], Returned None (Some (Lib err)))
             | Inr signature \<Rightarrow>
                 if length signature \<le> 64 then ([], Panicked)
                 else
                  (let signature = signature[64 := signature ! 64 + 27];
                       seller2 = \<lparr>Amount2 = amount, Royalty2 = royalty, MetaURL2 = metaURL,
                                  ExclusiveFlag2 = exclusiveFlag, Exchanger2 = exchanger,
                                  BlockNumber2 = blockNumber,
                                  Sig2 = hexutil_Encode signature\<rparr> in
                   calling (Call_Marshal (Seller2Value seller2))
                    (case json_Marshal L (Seller2Value seller2) of
                       Inl err \<Rightarrow> ([], Returned None (Some (Lib err)))
                     | Inr result \<Rightarrow> ([], Returned (Some result) None))))))"

definition SignExchanger ::
  "('key, 'e) libs \<Rightarrow> Wallet \<Rightarrow> string \<Rightarrow> string \<Rightarrow> string \<Rightarrow> ('key, 'e) run" where
  "SignExchanger L w exchangerOwner to blockNumber =
     calling (Call_HexToECDSA (priKey w))
      (case crypto_HexToECDSA L (priKey w) of
         Inl err \<Rightarrow> ([], Returned None (Some (Lib err)))
       | Inr key \<Rightarrow>
          (let msg = SignExchanger_msg exchangerOwner to blockNumber in
           calling (Call_Sign (tools_SignHash L (bytes_of_string msg)) key)
            (case crypto_Sign L (tools_SignHash L (bytes_of_string msg)) key of
               Inl err \<Rightarrow> ([], Returned None (Some (Lib err)))
             | Inr signature \<Rightarrow>
                 if length signature \<le> 64 then ([], Panicked)
                 else
                  (let signature = signature[64 := signature ! 64 + 27];
                       exchangeAuth = \<lparr>ExchangerOwner = exchangerOwner, To = to,
                                       BlockNumberA = blockNumber,
                                       SigA = hexutil_Encode signature\<rparr> in
                   calling (Call_Marshal (ExchangerAuthValue exchangeAuth))
                    (case json_Marshal L (ExchangerAuthValue exchangeAuth) of
                       Inl err \<Rightarrow> ([], Returned None (Some (Lib err)))
                     | Inr result \<Rightarrow> ([], Returned (Some result) None))))))"

text \<open>\<open>SignDelegate\<close> ends with \<open>return []byte(hexutil.Encode(signature)), nil\<close>: it fills
  in no struct and does not call \<open>json.Marshal\<close>.\<close>

definition SignDelegate ::
  "('key, 'e) libs \<Rightarrow> Wallet \<Rightarrow> string \<Rightarrow> string \<Rightarrow> ('key, 'e) run" where
  "SignDelegate L w address pledgeAcoount =
     calling (Call_HexToECDSA (priKey w))
      (case crypto_HexToECDSA L (priKey w) of
         Inl err \<Rightarrow> ([], Returned None (Some (Lib err)))
       | Inr key \<Rightarrow>
          (let msg = SignDelegate_msg address pledgeAcoount in
           calling (Call_Sign (tools_SignHash L (bytes_of_string msg)) key)
            (case crypto_Sign L (tools_SignHash L (bytes_of_string msg)) key of
               Inl err \<Rightarrow> ([], Returned None (Some (Lib err)))
             | Inr signature \<Rightarrow>
                 if length signature \<le> 64 then ([], Panicked)
                 else
                  (let signature = signature[64 := signature ! 64 + 27] in
                   ([], Returned (Some (bytes_of_string (hexutil_Encode signature))) None)))))"

subsection \<open>The constructor\<close>


subsection \<open>The queries\<close>

text \<open>
  The arguments of an RPC call, named after the conversions that build them
  (\<open>common.HexToHash\<close>, \<open>common.HexToAddress\<close>, \<open>rpc.BlockNumber\<close> of an \<open>int64\<close>,
  \<open>rpc.BlockNumberOrHashWithNumber\<close>) and kept symbolic.
\<close>

datatype rpc_arg =
    common_HexToHash string
  | common_HexToAddress string
  | rpc_BlockNumber "64 word"
  | rpc_BlockNumberOrHashWithNumber rpc_arg
  | Bool_arg bool

text \<open>
  \<open>worm.c.CallContext(ctx, &r, method, args...)\<close> with \<open>var r *T\<close>: the parameter
  \<open>CallContext\<close> gives the value of \<open>r\<close> after the call (still nil when the node
  answered \<open>null\<close>) and the error. On a nil connection the call dereferences a nil
  pointer.
\<close>

type_synonym ('c, 'r, 'e) call_context = "'c \<Rightarrow> string \<Rightarrow> rpc_arg list \<Rightarrow> 'r option \<times> 'e option"

definition TransactionReceipt ::
  "('c, 'r, 'e) call_context \<Rightarrow> 'c Wormholes \<Rightarrow> string \<Rightarrow> ('r, 'e) returned" where
  "TransactionReceipt CallContext worm txHash =
     (case c worm of
        None \<Rightarrow> Panicked
      | Some conn \<Rightarrow>
         (let txHashs = common_HexToHash txHash;
              (r, err) = CallContext conn ''eth_getTransactionReceipt'' [txHashs] in
          if err = None \<and> r = None then Returned None (Some NotFound)
          else Returned r (map_option Lib err)))"

definition GetValidators ::
  "('c, 'r, 'e) call_context \<Rightarrow> 'c Wormholes \<Rightarrow> 64 word \<Rightarrow> ('r, 'e) returned" where
  "GetValidators CallContext worm blockNumber =
     (case c worm of
        None \<Rightarrow> Panicked
      | Some conn \<Rightarrow>
         (let blockNrOrHash = rpc_BlockNumber blockNumber;
              (r, err) = CallContext conn ''eth_getValidator'' [blockNrOrHash] in
          if err = None \<and> r = None then Returned None (Some NotFound)
          else Returned r (map_option Lib err)))"

definition GetAccountInfo ::
  "('c, 'r, 'e) call_context \<Rightarrow> 'c Wormholes \<Rightarrow> string \<Rightarrow> 64 word \<Rightarrow> ('r, 'e) returned" where
  "GetAccountInfo CallContext worm address block =
     (case c worm of
        None \<Rightarrow> Panicked
      | Some conn \<Rightarrow>
         (let addresss = common_HexToAddress address;
              blockNrOrHash = rpc_BlockNumberOrHashWithNumber (rpc_BlockNumber block);
              (r, err) = CallContext conn ''eth_getAccountInfo'' [addresss, blockNrOrHash] in
          if err = None \<and> r = None then Returned None (Some NotFound)
          else Returned r (map_option Lib err)))"

definition GetBlockBeneficiaryAddressByNumber ::
  "('c, 'r, 'e) call_context \<Rightarrow> 'c Wormholes \<Rightarrow> 64 word \<Rightarrow> ('r, 'e) returned" where
  "GetBlockBeneficiaryAddressByNumber CallContext worm block =
     (case c worm of
        None \<Rightarrow> Panicked
      | Some conn \<Rightarrow>
         (let blockNumber = rpc_BlockNumber block;
              (r, err) = CallContext conn ''eth_getBlockBeneficiaryAddressByNumber''
                           [blockNumber, Bool_arg True] in
          if err = None \<and> r = None then Returned None (Some NotFound)
          else Returned r (map_option Lib err)))"

subsection \<open>What a run learns from the libraries\<close>



subsection \<open>encoding/json\<close>


text \<open>
  \<open>utf8.DecodeRuneInString\<close>: the length of the valid UTF-8 encoding at the head of the
  string, 0 where Go reports \<open>RuneError\<close> with size 1. \<open>utf8_rest n lo hi\<close> checks the
  \<open>n - 1\<close> bytes after the first: the second within \<open>lo..hi\<close>, the others continuation bytes.
\<close>

definition utf8_rest :: "nat \<Rightarrow> nat \<Rightarrow> nat \<Rightarrow> string \<Rightarrow> nat" where
  "utf8_rest n lo hi r =
     (case r of
        [] \<Rightarrow> 0
      | c1 # r' \<Rightarrow>
          if lo \<le> (of_char c1 :: nat) \<and> (of_char c1 :: nat) \<le> hi \<and> n - 2 \<le> length r'
             \<and> list_all (\<lambda>ch. 0x80 \<le> (of_char ch :: nat) \<and> (of_char ch :: nat) \<le> 0xBF) (take (n - 2) r')
          then n else 0)"

definition utf8_size :: "string \<Rightarrow> nat" where
  "utf8_size s =
     (case s of
        [] \<Rightarrow> 0
      | c0 # r \<Rightarrow>
         (let b = (of_char c0 :: nat) in
          if b < 0x80 then 1
          else if 0xC2 \<le> b \<and> b \<le> 0xDF then utf8_rest 2 0x80 0xBF r
          else if b = 0xE0 then utf8_rest 3 0xA0 0xBF r
          else if b = 0xED then utf8_rest 3 0x80 0x9F r
          else if 0xE1 \<le> b \<and> b \<le> 0xEF then utf8_rest 3 0x80 0xBF r
          else if b = 0xF0 then utf8_rest 4 0x90 0xBF r
          else if 0xF1 \<le> b \<and> b \<le> 0xF3 then utf8_rest 4 0x80 0xBF r
          else if b = 0xF4 then utf8_rest 4 0x80 0x8F r
          else 0))"

text \<open>
  The bytes \<open>htmlSafeSet\<close> lets through, and the escape of any other byte below \<open>0x80\<close>.
\<close>

definition json_verbatim :: "char \<Rightarrow> bool" where
  "json_verbatim ch \<longleftrightarrow>
     0x20 \<le> (of_char ch :: nat) \<and> (of_char ch :: nat) < 0x80
     \<and> ch \<noteq> CHR 0x22 \<and> ch \<noteq> CHR 0x26 \<and> ch \<noteq> CHR 0x3C \<and> ch \<noteq> CHR 0x3E \<and> ch \<noteq> CHR 0x5C"

definition json_escape :: "char \<Rightarrow> string" where
  "json_escape ch =
     (if json_verbatim ch then [ch]
      else if ch = CHR 0x5C \<or> ch = CHR 0x22 then [CHR 0x5C, ch]
      else if ch = CHR 0x08 then [CHR 0x5C, CHR ''b'']
      else if ch = CHR 0x0C then [CHR 0x5C, CHR ''f'']
      else if ch = CHR 0x0A then [CHR 0x5C, CHR ''n'']
      else if ch = CHR 0x0D then [CHR 0x5C, CHR ''r'']
      else if ch = CHR 0x09 then [CHR 0x5C, CHR ''t'']
      else [CHR 0x5C, CHR ''u'', CHR ''0'', CHR ''0'',
            hextable ! ((of_char ch :: nat) div 16), hextable ! ((of_char ch :: nat) mod 16)])"

text \<open>
  The loop of \<open>appendString\<close> over the bytes of the string.
\<close>

function json_body :: "string \<Rightarrow> string" where
  "json_body [] = []"
| "json_body (ch # cs) =
     (if (of_char ch :: nat) < 0x80 then json_escape ch @ json_body cs
      else if utf8_size (ch # cs) = 0 then (CHR 0x5C # ''ufffd'') @ json_body cs
      else if take 3 (ch # cs) = [CHR 0xE2, CHR 0x80, CHR 0xA8]
        then (CHR 0x5C # ''u2028'') @ json_body (drop 2 cs)
      else if take 3 (ch # cs) = [CHR 0xE2, CHR 0x80, CHR 0xA9]
        then (CHR 0x5C # ''u2029'') @ json_body (drop 2 cs)
      else take (utf8_size (ch # cs)) (ch # cs) @ json_body (drop (utf8_size (ch # cs) - 1) cs))"
  by pat_completeness auto
termination
  by (relation "measure length") auto






subsection \<open>Stand-ins for running the operations\<close>

text \<open>
  To run the operations on the inputs of the repository's tests, the libraries are
  replaced by small stand-ins: a key is accepted when it has 64 characters, the digest
  is the first 32 bytes of the zero-padded data, a signature is 64 bytes \<open>0x11\<close> and the
  recovery id 1, and a struct is written as a JSON object under its Go field names,
  without escaping. None of the general theorems depends on them.
\<close>

definition demo_quote :: "string \<Rightarrow> string" where
  "demo_quote s = CHR 0x22 # s @ [CHR 0x22]"

fun demo_members :: "(string \<times> string) list \<Rightarrow> string" where
  "demo_members [] = []"
| "demo_members [(k, v)] = demo_quote k @ '':'' @ demo_quote v"
| "demo_members ((k, v) # m # ms) = demo_quote k @ '':'' @ demo_quote v @ '','' @ demo_members (m # ms)"

definition demo_fields :: "payload \<Rightarrow> (string \<times> string) list" where
  "demo_fields p =
     (case p of
        BuyerValue b \<Rightarrow>
          [(''Amount'', Amount b), (''NFTAddress'', NFTAddress b), (''Exchanger'', Exchanger b),
           (''BlockNumber'', BlockNumber b), (''Seller'', Seller b), (''Sig'', Sig b)]
      | Seller1Value s \<Rightarrow>
          [(''Amount'', Amount1 s), (''NFTAddress'', NFTAddress1 s), (''Exchanger'', Exchanger1 s),
           (''BlockNumber'', BlockNumber1 s), (''Sig'', Sig1 s)]
      | Seller2Value s \<Rightarrow>
          [(''Amount'', Amount2 s), (''Royalty'', Royalty2 s), (''MetaURL'', MetaURL2 s),
           (''ExclusiveFlag'', ExclusiveFlag2 s), (''Exchanger'', Exchanger2 s),
           (''BlockNumber'', BlockNumber2 s), (''Sig'', Sig2 s)]
      | ExchangerAuthValue a \<Rightarrow>
          [(''ExchangerOwner'', ExchangerOwner a), (''To'', To a),
           (''BlockNumber'', BlockNumberA a), (''Sig'', SigA a)])"

definition demo_libs :: "(string, string) libs" where
  "demo_libs =
     \<lparr>crypto_HexToECDSA = (\<lambda>s. if length s = 64 then Inr s else Inl ''invalid length, need 256 bits''),
      crypto_Sign = (\<lambda>d k. if length d = 32 then Inr (replicate 64 17 @ [1])
                           else Inl ''hash is required to be exactly 32 bytes''),
      tools_SignHash = (\<lambda>d. take 32 (d @ replicate 32 0)),
      json_Marshal = (\<lambda>p. Inr (bytes_of_string (''{'' @ demo_members (demo_fields p) @ ''}'')))\<rparr>"

definition buyerPriKey :: string where
  "buyerPriKey = ''057b05b9cff85c963c3ab90d26503700646781f938054171461b17ad5f7082db''"

definition demo_wallet :: Wallet where
  "demo_wallet = \<lparr>priKey = buyerPriKey\<rparr>"

definition short_key_wallet :: Wallet where
  "short_key_wallet = \<lparr>priKey = ''50fd980dab6b010c''\<rparr>"

text \<open>A node that has no receipt for any hash, and one that cannot be reached.\<close>

definition null_node :: "(unit, nat, string) call_context" where
  "null_node conn method args = (None, None)"

definition down_node :: "(unit, nat, string) call_context" where
  "down_node conn method args = (None, Some ''connection refused'')"

definition demo_client :: "unit Wormholes" where
  "demo_client = \<lparr>Wallet = demo_wallet, c = Some ()\<rparr>"



subsection \<open>The recovery byte\<close>

text \<open>
  \<open>recovery_raised raw out\<close>: \<open>out\<close> is the signature \<open>raw\<close> of \<open>crypto.Sign\<close> with the
  byte at index 64 raised by 27 and every other byte kept.
\<close>

definition recovery_raised :: "byte list \<Rightarrow> byte list \<Rightarrow> bool" where
  "recovery_raised raw out \<longleftrightarrow>
     64 < length raw \<and> length out = length raw \<and> out ! 64 = raw ! 64 + 27
     \<and> (\<forall>i < length raw. i \<noteq> 64 \<longrightarrow> out ! i = raw ! i)"

section \<open>Signing: facts shared by the claims\<close>

lemma calls_calling [simp]: "calls (calling x r) = x # calls r"
  by (simp add: calls_def calling_def)
lemma outcome_calling [simp]: "outcome (calling x r) = outcome r"
  by (simp add: outcome_def calling_def)
lemma calls_pair [simp]: "calls (xs, y) = xs"
  by (simp add: calls_def)
lemma outcome_pair [simp]: "outcome (xs, y) = y"
  by (simp add: outcome_def)

lemmas msg_defs = SignBuyer_msg_def SignSeller1_msg_def SignSeller2_msg_def
  SignExchanger_msg_def SignDelegate_msg_def

text \<open>The conversion \<open>[]byte(msg)\<close> loses nothing: different strings give different bytes.\<close>

lemma bytes_of_string_eq_iff: "bytes_of_string x = bytes_of_string y \<longleftrightarrow> x = y"
proof -
  have "inj (\<lambda>c::char. (of_nat (of_char c) :: byte))"
  proof (rule injI)
    fix a b :: char
    assume eq: "(of_nat (of_char a) :: byte) = of_nat (of_char b)"
    have "unat (of_nat (of_char a) :: byte) = of_char a mod 256" for a :: char
      by (simp add: unat_of_nat)
    then have "unat (of_nat (of_char a) :: byte) = of_char a" for a :: char
      by simp
    with eq have "(of_char a :: nat) = of_char b" by metis
    then show "a = b" by simp
  qed
  then show ?thesis
    by (auto simp add: bytes_of_string_def dest: inj_mapD)
qed

lemma recovery_raised_update:
  "64 < length sig \<Longrightarrow> recovery_raised sig (sig[64 := sig ! 64 + 27])"
  by (simp add: recovery_raised_def)

lemma recovery_raised_range:
  "recovery_raised raw out \<Longrightarrow> raw ! 64 = 0 \<or> raw ! 64 = 1 \<Longrightarrow> out ! 64 = 27 \<or> out ! 64 = 28"
  by (auto simp add: recovery_raised_def)

text \<open>
  What a successful run tells: the key parsed, \<open>crypto.Sign\<close> answered the digest of the
  message with a signature \<open>sig\<close> of more than 64 bytes, and the result is built from
  \<open>sig\<close> with its byte 64 raised by 27.
\<close>

lemma Sign_success:
  assumes "outcome (Sign L w data' k) = Returned (Some result) None"
  shows "\<exists>key sig. crypto_HexToECDSA L k = Inr key
     \<and> crypto_Sign L (tools_SignHash L data') key = Inr sig
     \<and> 64 < length sig \<and> result = sig[64 := sig ! 64 + 27]"
  using assms by (auto simp add: Sign_def Let_def split: sum.splits if_splits)

lemma SignBuyer_success:
  assumes "outcome (SignBuyer L w amount nftAddress exchanger blockNumber seller)
             = Returned (Some result) None"
  shows "\<exists>key sig. crypto_HexToECDSA L (priKey w) = Inr key
     \<and> crypto_Sign L (tools_SignHash L (bytes_of_string
           (SignBuyer_msg amount nftAddress exchanger blockNumber seller))) key = Inr sig
     \<and> 64 < length sig
     \<and> calls (SignBuyer L w amount nftAddress exchanger blockNumber seller)
        = [Call_HexToECDSA (priKey w),
           Call_Sign (tools_SignHash L (bytes_of_string
             (SignBuyer_msg amount nftAddress exchanger blockNumber seller))) key,
           Call_Marshal (BuyerValue \<lparr>Amount = amount, NFTAddress = nftAddress,
             Exchanger = exchanger, BlockNumber = blockNumber, Seller = seller,
             Sig = hexutil_Encode (sig[64 := sig ! 64 + 27])\<rparr>)]
     \<and> json_Marshal L (BuyerValue \<lparr>Amount = amount, NFTAddress = nftAddress,
          Exchanger = exchanger, BlockNumber = blockNumber, Seller = seller,
          Sig = hexutil_Encode (sig[64 := sig ! 64 + 27])\<rparr>) = Inr result"
  using assms by (auto simp add: SignBuyer_def Let_def split: sum.splits if_splits)

lemma SignSeller1_success:
  assumes "outcome (SignSeller1 L w amount nftAddress exchanger blockNumber)
             = Returned (Some result) None"
  shows "\<exists>key sig. crypto_HexToECDSA L (priKey w) = Inr key
     \<and> crypto_Sign L (tools_SignHash L (bytes_of_string
           (SignSeller1_msg amount nftAddress exchanger blockNumber))) key = Inr sig
     \<and> 64 < length sig
     \<and> calls (SignSeller1 L w amount nftAddress exchanger blockNumber)
        = [Call_HexToECDSA (priKey w),
           Call_Sign (tools_SignHash L (bytes_of_string
             (SignSeller1_msg amount nftAddress exchanger blockNumber))) key,
           Call_Marshal (Seller1Value \<lparr>Amount1 = amount, NFTAddress1 = nftAddress,
             Exchanger1 = exchanger, BlockNumber1 = blockNumber,
             Sig1 = hexutil_Encode (sig[64 := sig ! 64 + 27])\<rparr>)]
     \<and> json_Marshal L (Seller1Value \<lparr>Amount1 = amount, NFTAddress1 = nftAddress,
          Exchanger1 = exchanger, BlockNumber1 = blockNumber,
          Sig1 = hexutil_Encode (sig[64 := sig ! 64 + 27])\<rparr>) = Inr result"
  using assms by (auto simp add: SignSeller1_def Let_def split: sum.splits if_splits)

lemma SignSeller2_success:
  assumes "outcome (SignSeller2 L w amount royalty metaURL exclusiveFlag exchanger blockNumber)
             = Returned (Some result) None"
  shows "\<exists>key sig. crypto_HexToECDSA L (priKey w) = Inr key
     \<and> crypto_Sign L (tools_SignHash L (bytes_of_string
           (SignSeller2_msg amount royalty metaURL exclusiveFlag exchanger blockNumber))) key = Inr sig
     \<and> 64 < length sig
     \<and> calls (SignSeller2 L w amount royalty metaURL exclusiveFlag exchanger blockNumber)
        = [Call_HexToECDSA (priKey w),
           Call_Sign (tools_SignHash L (bytes_of_string
             (SignSeller2_msg amount royalty metaURL exclusiveFlag exchanger blockNumber))) key,
           Call_Marshal (Seller2Value \<lparr>Amount2 = amount, Royalty2 = royalty, MetaURL2 = metaURL,
             ExclusiveFlag2 = exclusiveFlag, Exchanger2 = exchanger, BlockNumber2 = blockNumber,
             Sig2 = hexutil_Encode (sig[64 := sig ! 64 + 27])\<rparr>)]
     \<and> json_Marshal L (Seller2Value \<lparr>Amount2 = amount, Royalty2 = royalty, MetaURL2 = metaURL,
          ExclusiveFlag2 = exclusiveFlag, Exchanger2 = exchanger, BlockNumber2 = blockNumber,
          Sig2 = hexutil_Encode (sig[64 := sig ! 64 + 27])\<rparr>) = Inr result"
  using assms by (auto simp add: SignSeller2_def Let_def split: sum.splits if_splits)

lemma SignExchanger_success:
  assumes "outcome (SignExchanger L w exchangerOwner to blockNumber) = Returned (Some result) None"
  shows "\<exists>key sig. crypto_HexToECDSA L (priKey w) = Inr key
     \<and> crypto_Sign L (tools_SignHash L (bytes_of_string
           (SignExchanger_msg exchangerOwner to blockNumber))) key = Inr sig
     \<and> 64 < length sig
     \<and> calls (SignExchanger L w exchangerOwner to blockNumber)
        = [Call_HexToECDSA (priKey w),
           Call_Sign (tools_SignHash L (bytes_of_string
             (SignExchanger_msg exchangerOwner to blockNumber))) key,
           Call_Marshal (ExchangerAuthValue \<lparr>ExchangerOwner = exchangerOwner, To = to,
             BlockNumberA = blockNumber, SigA = hexutil_Encode (sig[64 := sig ! 64 + 27])\<rparr>)]
     \<and> json_Marshal L (ExchangerAuthValue \<lparr>ExchangerOwner = exchangerOwner, To = to,
          BlockNumberA = blockNumber, SigA = hexutil_Encode (sig[64 := sig ! 64 + 27])\<rparr>)
         = Inr result"
  using assms by (auto simp add: SignExchanger_def Let_def split: sum.splits if_splits)

lemma SignDelegate_success:
  assumes "outcome (SignDelegate L w address pledgeAccount) = Returned (Some result) None"
  shows "\<exists>key sig. crypto_HexToECDSA L (priKey w) = Inr key
     \<and> crypto_Sign L (tools_SignHash L (bytes_of_string
           (SignDelegate_msg address pledgeAccount))) key = Inr sig
     \<and> 64 < length sig
     \<and> calls (SignDelegate L w address pledgeAccount)
        = [Call_HexToECDSA (priKey w),
           Call_Sign (tools_SignHash L (bytes_of_string
             (SignDelegate_msg address pledgeAccount))) key]
     \<and> result = bytes_of_string (hexutil_Encode (sig[64 := sig ! 64 + 27]))"
  using assms by (auto simp add: SignDelegate_def Let_def split: sum.splits if_splits)

lemma hex_Encode_append: "hex_Encode (xs @ ys) = hex_Encode xs @ hex_Encode ys"
  by (simp add: hex_Encode_def)




text \<open>The operations on the stand-ins, at the arguments of the repository's tests.\<close>

lemma demo_key: "crypto_HexToECDSA demo_libs (priKey demo_wallet) = Inr buyerPriKey"
  by (simp add: demo_libs_def demo_wallet_def buyerPriKey_def)


lemma recovery_update:
  assumes "length sig = 65"
  shows "sig[64 := v] = take 64 sig @ [v]"
  using assms by (simp add: upd_conv_take_nth_drop)

lemma hexutil_Encode_recovery:
  assumes "length sig = 65"
  shows "hexutil_Encode (sig[64 := v])
    = ''0x'' @ hex_Encode (take 64 sig) @ [hextable ! unat (drop_bit 4 v), hextable ! unat (v AND 15)]"
  using assms by (simp add: recovery_update hexutil_Encode_def hex_Encode_append)
     (simp add: hex_Encode_def)

lemma demo_key_arg: "crypto_HexToECDSA demo_libs buyerPriKey = Inr buyerPriKey"
  by (simp add: demo_libs_def buyerPriKey_def)

lemma demo_sign: "crypto_Sign demo_libs (tools_SignHash demo_libs d) k = Inr (replicate 64 17 @ [1])"
  by (simp add: demo_libs_def)

lemma demo_raised:
  "(replicate 64 17 @ [1 :: byte])[64 := (replicate 64 17 @ [1]) ! 64 + 27] = replicate 64 17 @ [28]"
  by (simp add: list_update_append nth_append)

lemma demo_libs_marshal:
  "json_Marshal demo_libs p = Inr (bytes_of_string (''{'' @ demo_members (demo_fields p) @ ''}''))"
  by (simp add: demo_libs_def)







lemma json_body_invalid: "json_body [CHR 0xFF] = CHR 0x5C # ''ufffd''"
  by (simp add: utf8_size_def)

text \<open>
  What a run is once the key has parsed and \<open>crypto.Sign\<close> has answered with more than
  64 bytes: for any libraries, and with \<open>json.Marshal\<close> as modelled above.
\<close>

lemma SignBuyer_run:
  assumes "crypto_HexToECDSA L (priKey w) = Inr key"
    and "crypto_Sign L (tools_SignHash L (bytes_of_string (SignBuyer_msg amount nftAddress
          exchanger blockNumber seller))) key = Inr raw"
    and "64 < length raw"
  shows "SignBuyer L w amount nftAddress exchanger blockNumber seller
    = ([Call_HexToECDSA (priKey w), Call_Sign (tools_SignHash L (bytes_of_string
        (SignBuyer_msg amount nftAddress exchanger blockNumber seller))) key, Call_Marshal
        (BuyerValue \<lparr>Amount = amount, NFTAddress = nftAddress, Exchanger =
        exchanger, BlockNumber = blockNumber, Seller = seller, Sig = hexutil_Encode (raw[64
        := raw ! 64 + 27])\<rparr>)],
    (case json_Marshal L (BuyerValue \<lparr>Amount = amount, NFTAddress = nftAddress,
        Exchanger = exchanger, BlockNumber = blockNumber, Seller = seller, Sig =
        hexutil_Encode (raw[64 := raw ! 64 + 27])\<rparr>) of Inl err \<Rightarrow>
        Returned None (Some (Lib err)) | Inr result \<Rightarrow> Returned (Some result)
        None))"
  using assms by (simp add: SignBuyer_def calling_def Let_def split: sum.splits)

lemma SignSeller1_run:
  assumes "crypto_HexToECDSA L (priKey w) = Inr key"
    and "crypto_Sign L (tools_SignHash L (bytes_of_string (SignSeller1_msg amount nftAddress
          exchanger blockNumber))) key = Inr raw"
    and "64 < length raw"
  shows "SignSeller1 L w amount nftAddress exchanger blockNumber
    = ([Call_HexToECDSA (priKey w), Call_Sign (tools_SignHash L (bytes_of_string
        (SignSeller1_msg amount nftAddress exchanger blockNumber))) key, Call_Marshal
        (Seller1Value \<lparr>Amount1 = amount, NFTAddress1 = nftAddress, Exchanger1 =
        exchanger, BlockNumber1 = blockNumber, Sig1 = hexutil_Encode (raw[64 := raw ! 64 +
        27])\<rparr>)],
    (case json_Marshal L (Seller1Value \<lparr>Amount1 = amount, NFTAddress1 = nftAddress,
        Exchanger1 = exchanger, BlockNumber1 = blockNumber, Sig1 = hexutil_Encode (raw[64
        := raw ! 64 + 27])\<rparr>) of Inl err \<Rightarrow> Returned None (Some (Lib err))
        | Inr result \<Rightarrow> Returned (Some result) None))"
  using assms by (simp add: SignSeller1_def calling_def Let_def split: sum.splits)

lemma SignSeller2_run:
  assumes "crypto_HexToECDSA L (priKey w) = Inr key"
    and "crypto_Sign L (tools_SignHash L (bytes_of_string (SignSeller2_msg amount royalty
          metaURL exclusiveFlag exchanger blockNumber))) key = Inr raw"
    and "64 < length raw"
  shows "SignSeller2 L w amount royalty metaURL exclusiveFlag exchanger blockNumber
    = ([Call_HexToECDSA (priKey w), Call_Sign (tools_SignHash L (bytes_of_string
        (SignSeller2_msg amount royalty metaURL exclusiveFlag exchanger blockNumber))) key,
        Call_Marshal (Seller2Value \<lparr>Amount2 = amount, Royalty2 = royalty, MetaURL2 =
        metaURL, ExclusiveFlag2 = exclusiveFlag, Exchanger2 = exchanger, BlockNumber2 =
        blockNumber, Sig2 = hexutil_Encode (raw[64 := raw ! 64 + 27])\<rparr>)],
    (case json_Marshal L (Seller2Value \<lparr>Amount2 = amount, Royalty2 = royalty,
        MetaURL2 = metaURL, ExclusiveFlag2 = exclusiveFlag, Exchanger2 = exchanger,
        BlockNumber2 = blockNumber, Sig2 = hexutil_Encode (raw[64 := raw ! 64 +
        27])\<rparr>) of Inl err \<Rightarrow> Returned None (Some (Lib err)) | Inr result
        \<Rightarrow> Returned (Some result) None))"
  using assms by (simp add: SignSeller2_def calling_def Let_def split: sum.splits)

lemma SignExchanger_run:
  assumes "crypto_HexToECDSA L (priKey w) = Inr key"
    and "crypto_Sign L (tools_SignHash L (bytes_of_string (SignExchanger_msg exchangerOwner to
          blockNumber))) key = Inr raw"
    and "64 < length raw"
  shows "SignExchanger L w exchangerOwner to blockNumber
    = ([Call_HexToECDSA (priKey w), Call_Sign (tools_SignHash L (bytes_of_string
        (SignExchanger_msg exchangerOwner to blockNumber))) key, Call_Marshal
        (ExchangerAuthValue \<lparr>ExchangerOwner = exchangerOwner, To = to, BlockNumberA
        = blockNumber, SigA = hexutil_Encode (raw[64 := raw ! 64 + 27])\<rparr>)],
    (case json_Marshal L (ExchangerAuthValue \<lparr>ExchangerOwner = exchangerOwner, To =
        to, BlockNumberA = blockNumber, SigA = hexutil_Encode (raw[64 := raw ! 64 +
        27])\<rparr>) of Inl err \<Rightarrow> Returned None (Some (Lib err)) | Inr result
        \<Rightarrow> Returned (Some result) None))"
  using assms by (simp add: SignExchanger_def calling_def Let_def split: sum.splits)

lemma SignDelegate_run:
  assumes "crypto_HexToECDSA L (priKey w) = Inr key"
    and "crypto_Sign L (tools_SignHash L (bytes_of_string (SignDelegate_msg address
          pledgeAccount))) key = Inr raw"
    and "64 < length raw"
  shows "SignDelegate L w address pledgeAccount
    = ([Call_HexToECDSA (priKey w), Call_Sign (tools_SignHash L (bytes_of_string
        (SignDelegate_msg address pledgeAccount))) key],
    Returned (Some (bytes_of_string (hexutil_Encode (raw[64 := raw ! 64 + 27])))) None)"
  using assms by (simp add: SignDelegate_def calling_def Let_def)

lemma Sign_run:
  assumes "crypto_HexToECDSA L k = Inr key"
    and "crypto_Sign L (tools_SignHash L data') key = Inr raw"
    and "64 < length raw"
  shows "Sign L w data' k = ([Call_HexToECDSA k, Call_Sign (tools_SignHash L data') key],
    Returned (Some (raw[64 := raw ! 64 + 27])) None)"
  using assms by (simp add: Sign_def calling_def)









section \<open>The signable message\<close>

text \<open>
  Claim C1. For each of \<open>SignBuyer\<close>, \<open>SignSeller1\<close>, \<open>SignSeller2\<close>, \<open>SignExchanger\<close>
  and \<open>SignDelegate\<close>, the message is the concatenation of the field strings in the
  declared order with nothing between them, and once the key has parsed the one call
  of \<open>crypto.Sign\<close> receives \<open>tools.SignHash\<close> of the bytes of that concatenation.
\<close>

theorem signed_bytes_are_SignHash_of_concatenation:
  "SignBuyer_msg amount nftAddress exchanger blockNumber seller
     = concat [amount, nftAddress, exchanger, blockNumber, seller]
   \<and> SignSeller1_msg amount nftAddress exchanger blockNumber
     = concat [amount, nftAddress, exchanger, blockNumber]
   \<and> SignSeller2_msg amount royalty metaURL exclusiveFlag exchanger blockNumber
     = concat [amount, royalty, metaURL, exclusiveFlag, exchanger, blockNumber]
   \<and> SignExchanger_msg exchangerOwner to blockNumber = concat [exchangerOwner, to, blockNumber]
   \<and> SignDelegate_msg address pledgeAccount = concat [address, pledgeAccount]
   \<and> (\<forall>key. crypto_HexToECDSA L (priKey w) = Inr key \<longrightarrow>
        sign_args (calls (SignBuyer L w amount nftAddress exchanger blockNumber seller))
          = [(tools_SignHash L (bytes_of_string
                (concat [amount, nftAddress, exchanger, blockNumber, seller])), key)]
      \<and> sign_args (calls (SignSeller1 L w amount nftAddress exchanger blockNumber))
          = [(tools_SignHash L (bytes_of_string
                (concat [amount, nftAddress, exchanger, blockNumber])), key)]
      \<and> sign_args (calls (SignSeller2 L w amount royalty metaURL exclusiveFlag exchanger blockNumber))
          = [(tools_SignHash L (bytes_of_string
                (concat [amount, royalty, metaURL, exclusiveFlag, exchanger, blockNumber])), key)]
      \<and> sign_args (calls (SignExchanger L w exchangerOwner to blockNumber))
          = [(tools_SignHash L (bytes_of_string (concat [exchangerOwner, to, blockNumber])), key)]
      \<and> sign_args (calls (SignDelegate L w address pledgeAccount))
          = [(tools_SignHash L (bytes_of_string (concat [address, pledgeAccount])), key)])"
proof -
  have msgs:
    "SignBuyer_msg amount nftAddress exchanger blockNumber seller
       = concat [amount, nftAddress, exchanger, blockNumber, seller]"
    "SignSeller1_msg amount nftAddress exchanger blockNumber
       = concat [amount, nftAddress, exchanger, blockNumber]"
    "SignSeller2_msg amount royalty metaURL exclusiveFlag exchanger blockNumber
       = concat [amount, royalty, metaURL, exclusiveFlag, exchanger, blockNumber]"
    "SignExchanger_msg exchangerOwner to blockNumber = concat [exchangerOwner, to, blockNumber]"
    "SignDelegate_msg address pledgeAccount = concat [address, pledgeAccount]"
    by (simp_all add: msg_defs)
  have b: "sign_args (calls (SignBuyer L w amount nftAddress exchanger blockNumber seller))
          = [(tools_SignHash L (bytes_of_string
                (SignBuyer_msg amount nftAddress exchanger blockNumber seller)), key)]"
    if "crypto_HexToECDSA L (priKey w) = Inr key" for key
    using that by (simp add: SignBuyer_def Let_def split: sum.splits)
  have s1: "sign_args (calls (SignSeller1 L w amount nftAddress exchanger blockNumber))
          = [(tools_SignHash L (bytes_of_string
                (SignSeller1_msg amount nftAddress exchanger blockNumber)), key)]"
    if "crypto_HexToECDSA L (priKey w) = Inr key" for key
    using that by (simp add: SignSeller1_def Let_def split: sum.splits)
  have s2: "sign_args (calls (SignSeller2 L w amount royalty metaURL exclusiveFlag exchanger blockNumber))
          = [(tools_SignHash L (bytes_of_string
                (SignSeller2_msg amount royalty metaURL exclusiveFlag exchanger blockNumber)), key)]"
    if "crypto_HexToECDSA L (priKey w) = Inr key" for key
    using that by (simp add: SignSeller2_def Let_def split: sum.splits)
  have ex: "sign_args (calls (SignExchanger L w exchangerOwner to blockNumber))
          = [(tools_SignHash L (bytes_of_string
                (SignExchanger_msg exchangerOwner to blockNumber)), key)]"
    if "crypto_HexToECDSA L (priKey w) = Inr key" for key
    using that by (simp add: SignExchanger_def Let_def split: sum.splits)
  have d: "sign_args (calls (SignDelegate L w address pledgeAccount))
          = [(tools_SignHash L (bytes_of_string (SignDelegate_msg address pledgeAccount)), key)]"
    if "crypto_HexToECDSA L (priKey w) = Inr key" for key
    using that by (simp add: SignDelegate_def Let_def split: sum.splits)
  show ?thesis
    using b s1 s2 ex d unfolding msgs by blast
qed

theorem signed_bytes_are_SignHash_of_concatenation_witness:
  "crypto_HexToECDSA demo_libs (priKey demo_wallet) = Inr buyerPriKey
   \<and> sign_args (calls (SignBuyer demo_libs demo_wallet ''0xde0b6b3a7640000''
        ''0x0000000000000000000000000000000000000002''
        ''0x8b07aff2327a3B7e2876D899caFac99f7AE16B10'' ''0x677'' ''''))
      = [(tools_SignHash demo_libs (bytes_of_string
           ''0xde0b6b3a76400000x00000000000000000000000000000000000000020x8b07aff2327a3B7e2876D899caFac99f7AE16B100x677''),
          buyerPriKey)]
   \<and> sign_args (calls (SignDelegate demo_libs demo_wallet ''address'' ''pledgeAccount''))
      = [(tools_SignHash demo_libs (bytes_of_string ''addresspledgeAccount''), buyerPriKey)]"
  using demo_key
    signed_bytes_are_SignHash_of_concatenation [where L = demo_libs and w = demo_wallet
      and amount = "''0xde0b6b3a7640000''"
      and nftAddress = "''0x0000000000000000000000000000000000000002''"
      and exchanger = "''0x8b07aff2327a3B7e2876D899caFac99f7AE16B10''"
      and blockNumber = "''0x677''" and seller = "''''" and address = "''address''"
      and pledgeAccount = "''pledgeAccount''"]
  by simp

text \<open>
  Claim C2, as stated, asks that a schema with an empty field never signs the message of
  the schema without that field, and in particular that \<open>SignBuyer\<close> with an empty seller
  and \<open>SignSeller1\<close> sign different messages. The two messages are equal: on the
  arguments of the repository's test \<open>TestNftExchangeMatch\<close> both are the same string.
\<close>

theorem empty_seller_signs_the_seller1_message_counterexample:
  "SignBuyer_msg ''0xde0b6b3a7640000'' ''0x0000000000000000000000000000000000000004''
      ''0xaECE03150f0A6565e8308E872Bf3Ec143A0b4879'' ''0xa'' ''''
   = SignSeller1_msg ''0xde0b6b3a7640000'' ''0x0000000000000000000000000000000000000004''
      ''0xaECE03150f0A6565e8308E872Bf3Ec143A0b4879'' ''0xa''"
  by (simp add: msg_defs)

text \<open>
  Claim C2, amended. The signable message is the bare concatenation of the field strings:
  an empty field adds no byte and the boundaries between fields are not in it. The
  message of \<open>SignBuyer\<close> equals the message of \<open>SignSeller1\<close> on the same four fields
  exactly when the seller is empty, and always equals the message of \<open>SignSeller1\<close> with
  the seller appended to the block number. In the same way a \<open>SignSeller2\<close> message is a
  \<open>SignBuyer\<close> message, a \<open>SignSeller1\<close> message is a \<open>SignExchanger\<close> message and a
  \<open>SignExchanger\<close> message is a \<open>SignDelegate\<close> message. Where the messages are equal,
  \<open>SignBuyer\<close> and \<open>SignSeller1\<close> hand the same digest and key to \<open>crypto.Sign\<close>.
\<close>

theorem concatenated_messages_coincide:
  "(SignBuyer_msg amount nftAddress exchanger blockNumber seller = SignSeller1_msg amount
          nftAddress exchanger blockNumber \<longleftrightarrow> seller = '''')
   \<and> (SignBuyer_msg amount nftAddress exchanger blockNumber seller = SignSeller1_msg amount
          nftAddress exchanger (blockNumber @ seller))
   \<and> (SignSeller2_msg amount royalty metaURL exclusiveFlag exchanger blockNumber =
          SignBuyer_msg amount royalty metaURL exclusiveFlag (exchanger @ blockNumber))
   \<and> (SignSeller1_msg amount nftAddress exchanger blockNumber = SignExchanger_msg amount
          nftAddress (exchanger @ blockNumber))
   \<and> (SignExchanger_msg exchangerOwner to blockNumber = SignDelegate_msg exchangerOwner (to
          @ blockNumber))
   \<and> (sign_args (calls (SignBuyer L w amount nftAddress exchanger blockNumber '''')) =
          sign_args (calls (SignSeller1 L w amount nftAddress exchanger blockNumber)))
   \<and> (sign_args (calls (SignBuyer L w amount nftAddress exchanger blockNumber seller)) =
          sign_args (calls (SignSeller1 L w amount nftAddress exchanger (blockNumber @
          seller))))"
proof -
  have iff: "SignBuyer_msg amount nftAddress exchanger blockNumber seller = SignSeller1_msg amount
        nftAddress exchanger blockNumber \<longleftrightarrow> seller = ''''"
    by (simp add: msg_defs)
  have shift: "SignBuyer_msg amount nftAddress exchanger blockNumber seller = SignSeller1_msg amount
        nftAddress exchanger (blockNumber @ seller)"
    by (simp add: msg_defs)
  have s2: "SignSeller2_msg amount royalty metaURL exclusiveFlag exchanger blockNumber =
        SignBuyer_msg amount royalty metaURL exclusiveFlag (exchanger @ blockNumber)"
    by (simp add: msg_defs)
  have ex: "SignSeller1_msg amount nftAddress exchanger blockNumber = SignExchanger_msg amount
        nftAddress (exchanger @ blockNumber)"
    by (simp add: msg_defs)
  have del: "SignExchanger_msg exchangerOwner to blockNumber = SignDelegate_msg exchangerOwner (to @
        blockNumber)"
    by (simp add: msg_defs)
  have same: "sign_args (calls (SignBuyer L w amount nftAddress exchanger blockNumber '''')) =
        sign_args (calls (SignSeller1 L w amount nftAddress exchanger blockNumber))"
    by (simp add: msg_defs SignBuyer_def SignSeller1_def Let_def split: sum.splits)
  have sameshift: "sign_args (calls (SignBuyer L w amount nftAddress exchanger blockNumber seller)) =
        sign_args (calls (SignSeller1 L w amount nftAddress exchanger (blockNumber @
        seller)))"
    by (simp add: msg_defs SignBuyer_def SignSeller1_def Let_def split: sum.splits)
  show ?thesis
    by (intro conjI) (rule iff, rule shift, rule s2, rule ex, rule del, rule same, rule sameshift)
qed

text \<open>
  Claim C3. Within one role, changing exactly one field changes the message, whatever the
  other fields are: two messages that differ in one field only are equal exactly when
  that field is equal. So \<open>SignBuyer\<close> with seller \<open>""\<close> and with seller \<open>0x00\<close> sign
  different messages, as do the royalties \<open>0xa\<close> and \<open>0x0a\<close>, and the bytes handed to
  \<open>tools.SignHash\<close> differ whenever the messages do.
\<close>

theorem single_field_mutation_changes_message:
  "(SignBuyer_msg a n e b s = SignBuyer_msg a' n e b s \<longleftrightarrow> a = a')
   \<and> (SignBuyer_msg a n e b s = SignBuyer_msg a n' e b s \<longleftrightarrow> n = n')
   \<and> (SignBuyer_msg a n e b s = SignBuyer_msg a n e' b s \<longleftrightarrow> e = e')
   \<and> (SignBuyer_msg a n e b s = SignBuyer_msg a n e b' s \<longleftrightarrow> b = b')
   \<and> (SignBuyer_msg a n e b s = SignBuyer_msg a n e b s' \<longleftrightarrow> s = s')
   \<and> (SignSeller1_msg a n e b = SignSeller1_msg a' n e b \<longleftrightarrow> a = a')
   \<and> (SignSeller1_msg a n e b = SignSeller1_msg a n' e b \<longleftrightarrow> n = n')
   \<and> (SignSeller1_msg a n e b = SignSeller1_msg a n e' b \<longleftrightarrow> e = e')
   \<and> (SignSeller1_msg a n e b = SignSeller1_msg a n e b' \<longleftrightarrow> b = b')
   \<and> (SignSeller2_msg a r m x e b = SignSeller2_msg a' r m x e b \<longleftrightarrow> a = a')
   \<and> (SignSeller2_msg a r m x e b = SignSeller2_msg a r' m x e b \<longleftrightarrow> r = r')
   \<and> (SignSeller2_msg a r m x e b = SignSeller2_msg a r m' x e b \<longleftrightarrow> m = m')
   \<and> (SignSeller2_msg a r m x e b = SignSeller2_msg a r m x' e b \<longleftrightarrow> x = x')
   \<and> (SignSeller2_msg a r m x e b = SignSeller2_msg a r m x e' b \<longleftrightarrow> e = e')
   \<and> (SignSeller2_msg a r m x e b = SignSeller2_msg a r m x e b' \<longleftrightarrow> b = b')
   \<and> (SignExchanger_msg a n b = SignExchanger_msg a' n b \<longleftrightarrow> a = a')
   \<and> (SignExchanger_msg a n b = SignExchanger_msg a n' b \<longleftrightarrow> n = n')
   \<and> (SignExchanger_msg a n b = SignExchanger_msg a n b' \<longleftrightarrow> b = b')
   \<and> (SignDelegate_msg a n = SignDelegate_msg a' n \<longleftrightarrow> a = a')
   \<and> (SignDelegate_msg a n = SignDelegate_msg a n' \<longleftrightarrow> n = n')
   \<and> SignBuyer_msg a n e b '''' \<noteq> SignBuyer_msg a n e b ''0x00''
   \<and> SignSeller2_msg a ''0xa'' m x e b \<noteq> SignSeller2_msg a ''0x0a'' m x e b
   \<and> (bytes_of_string (SignBuyer_msg a n e b s) = bytes_of_string (SignBuyer_msg a' n' e' b' s')
        \<longleftrightarrow> SignBuyer_msg a n e b s = SignBuyer_msg a' n' e' b' s')"
  by (simp add: msg_defs bytes_of_string_eq_iff)

section \<open>The signature and the payload\<close>

text \<open>
  Claim C4. Once the key has parsed and \<open>crypto.Sign\<close> has answered with a signature
  \<open>raw\<close> (65 bytes in go-ethereum), each operation returns that signature with the byte
  at index 64 raised by 27 and nothing else changed: \<open>Sign\<close> returns the bytes,
  \<open>SignDelegate\<close> their hexadecimal encoding, and the four struct roles what \<open>json.Marshal\<close>
  makes of the struct whose \<open>Sig\<close> is the hexadecimal encoding. An operation succeeds in
  no other way. A raw recovery id of 0 or 1 becomes 27 or 28, and the encoding then ends
  in \<open>1b\<close> or \<open>1c\<close>.
\<close>

theorem recovery_byte_is_raw_plus_27:
  "(\<forall>key raw. crypto_HexToECDSA L k = Inr key
      \<and> crypto_Sign L (tools_SignHash L data') key = Inr raw
      \<and> 64 < length raw \<longrightarrow>
      outcome (Sign L w data' k) = Returned (Some (raw[64 := raw ! 64 + 27])) None)
   \<and> (\<forall>key raw. crypto_HexToECDSA L (priKey w) = Inr key
      \<and> crypto_Sign L (tools_SignHash L (bytes_of_string (SignBuyer_msg amount
          nftAddress exchanger blockNumber seller))) key = Inr raw
      \<and> 64 < length raw \<longrightarrow>
      outcome (SignBuyer L w amount nftAddress exchanger blockNumber seller)
      = (case json_Marshal L (BuyerValue \<lparr>Amount = amount, NFTAddress = nftAddress,
          Exchanger = exchanger, BlockNumber = blockNumber, Seller = seller, Sig =
          hexutil_Encode (raw[64 := raw ! 64 + 27])\<rparr>) of Inl err \<Rightarrow>
          Returned None (Some (Lib err)) | Inr result \<Rightarrow> Returned (Some result)
          None))
   \<and> (\<forall>key raw. crypto_HexToECDSA L (priKey w) = Inr key
      \<and> crypto_Sign L (tools_SignHash L (bytes_of_string (SignSeller1_msg amount
          nftAddress exchanger blockNumber))) key = Inr raw
      \<and> 64 < length raw \<longrightarrow>
      outcome (SignSeller1 L w amount nftAddress exchanger blockNumber)
      = (case json_Marshal L (Seller1Value \<lparr>Amount1 = amount, NFTAddress1 =
          nftAddress, Exchanger1 = exchanger, BlockNumber1 = blockNumber, Sig1 =
          hexutil_Encode (raw[64 := raw ! 64 + 27])\<rparr>) of Inl err \<Rightarrow>
          Returned None (Some (Lib err)) | Inr result \<Rightarrow> Returned (Some result)
          None))
   \<and> (\<forall>key raw. crypto_HexToECDSA L (priKey w) = Inr key
      \<and> crypto_Sign L (tools_SignHash L (bytes_of_string (SignSeller2_msg amount
          royalty metaURL exclusiveFlag exchanger blockNumber))) key = Inr raw
      \<and> 64 < length raw \<longrightarrow>
      outcome (SignSeller2 L w amount royalty metaURL exclusiveFlag exchanger blockNumber)
      = (case json_Marshal L (Seller2Value \<lparr>Amount2 = amount, Royalty2 = royalty,
          MetaURL2 = metaURL, ExclusiveFlag2 = exclusiveFlag, Exchanger2 = exchanger,
          BlockNumber2 = blockNumber, Sig2 = hexutil_Encode (raw[64 := raw ! 64 +
          27])\<rparr>) of Inl err \<Rightarrow> Returned None (Some (Lib err)) | Inr
          result \<Rightarrow> Returned (Some result) None))
   \<and> (\<forall>key raw. crypto_HexToECDSA L (priKey w) = Inr key
      \<and> crypto_Sign L (tools_SignHash L (bytes_of_string (SignExchanger_msg
          exchangerOwner to blockNumber))) key = Inr raw
      \<and> 64 < length raw \<longrightarrow>
      outcome (SignExchanger L w exchangerOwner to blockNumber)
      = (case json_Marshal L (ExchangerAuthValue \<lparr>ExchangerOwner = exchangerOwner,
          To = to, BlockNumberA = blockNumber, SigA = hexutil_Encode (raw[64 := raw ! 64 +
          27])\<rparr>) of Inl err \<Rightarrow> Returned None (Some (Lib err)) | Inr
          result \<Rightarrow> Returned (Some result) None))
   \<and> (\<forall>key raw. crypto_HexToECDSA L (priKey w) = Inr key
      \<and> crypto_Sign L (tools_SignHash L (bytes_of_string (SignDelegate_msg address
          pledgeAccount))) key = Inr raw
      \<and> 64 < length raw \<longrightarrow>
      outcome (SignDelegate L w address pledgeAccount)
      = Returned (Some (bytes_of_string (hexutil_Encode (raw[64 := raw ! 64 + 27])))) None)
   \<and> (outcome (Sign L w data' k) = Returned (Some result) None \<longrightarrow>
      (\<exists>key raw. crypto_HexToECDSA L k = Inr key
      \<and> crypto_Sign L (tools_SignHash L data') key = Inr raw
      \<and> 64 < length raw
      \<and> result = raw[64 := raw ! 64 + 27]))
   \<and> (outcome (SignBuyer L w amount nftAddress exchanger blockNumber seller) = Returned
          (Some result) None \<longrightarrow>
      (\<exists>key raw. crypto_HexToECDSA L (priKey w) = Inr key
      \<and> crypto_Sign L (tools_SignHash L (bytes_of_string (SignBuyer_msg amount
          nftAddress exchanger blockNumber seller))) key = Inr raw
      \<and> 64 < length raw
      \<and> json_Marshal L (BuyerValue \<lparr>Amount = amount, NFTAddress = nftAddress,
          Exchanger = exchanger, BlockNumber = blockNumber, Seller = seller, Sig =
          hexutil_Encode (raw[64 := raw ! 64 + 27])\<rparr>) = Inr result))
   \<and> (outcome (SignSeller1 L w amount nftAddress exchanger blockNumber) = Returned (Some
          result) None \<longrightarrow>
      (\<exists>key raw. crypto_HexToECDSA L (priKey w) = Inr key
      \<and> crypto_Sign L (tools_SignHash L (bytes_of_string (SignSeller1_msg amount
          nftAddress exchanger blockNumber))) key = Inr raw
      \<and> 64 < length raw
      \<and> json_Marshal L (Seller1Value \<lparr>Amount1 = amount, NFTAddress1 =
          nftAddress, Exchanger1 = exchanger, BlockNumber1 = blockNumber, Sig1 =
          hexutil_Encode (raw[64 := raw ! 64 + 27])\<rparr>) = Inr result))
   \<and> (outcome (SignSeller2 L w amount royalty metaURL exclusiveFlag exchanger blockNumber)
          = Returned (Some result) None \<longrightarrow>
      (\<exists>key raw. crypto_HexToECDSA L (priKey w) = Inr key
      \<and> crypto_Sign L (tools_SignHash L (bytes_of_string (SignSeller2_msg amount
          royalty metaURL exclusiveFlag exchanger blockNumber))) key = Inr raw
      \<and> 64 < length raw
      \<and> json_Marshal L (Seller2Value \<lparr>Amount2 = amount, Royalty2 = royalty,
          MetaURL2 = metaURL, ExclusiveFlag2 = exclusiveFlag, Exchanger2 = exchanger,
          BlockNumber2 = blockNumber, Sig2 = hexutil_Encode (raw[64 := raw ! 64 +
          27])\<rparr>) = Inr result))
   \<and> (outcome (SignExchanger L w exchangerOwner to blockNumber) = Returned (Some result)
          None \<longrightarrow>
      (\<exists>key raw. crypto_HexToECDSA L (priKey w) = Inr key
      \<and> crypto_Sign L (tools_SignHash L (bytes_of_string (SignExchanger_msg
          exchangerOwner to blockNumber))) key = Inr raw
      \<and> 64 < length raw
      \<and> json_Marshal L (ExchangerAuthValue \<lparr>ExchangerOwner = exchangerOwner, To
          = to, BlockNumberA = blockNumber, SigA = hexutil_Encode (raw[64 := raw ! 64 +
          27])\<rparr>) = Inr result))
   \<and> (outcome (SignDelegate L w address pledgeAccount) = Returned (Some result) None
          \<longrightarrow>
      (\<exists>key raw. crypto_HexToECDSA L (priKey w) = Inr key
      \<and> crypto_Sign L (tools_SignHash L (bytes_of_string (SignDelegate_msg address
          pledgeAccount))) key = Inr raw
      \<and> 64 < length raw
      \<and> result = bytes_of_string (hexutil_Encode (raw[64 := raw ! 64 + 27]))))
   \<and> (\<forall>raw :: byte list. 64 < length raw \<longrightarrow>
      recovery_raised raw (raw[64 := raw ! 64 + 27]))
   \<and> (\<forall>raw out. recovery_raised raw out
      \<and> (raw ! 64 = 0 \<or> raw ! 64 = 1) \<longrightarrow>
      out ! 64 = 27 \<or> out ! 64 = 28)
   \<and> (\<forall>raw :: byte list. length raw = 65 \<longrightarrow>
      hexutil_Encode (raw[64 := 27]) = ''0x'' @ hex_Encode (take 64 raw) @ ''1b''
      \<and> hexutil_Encode (raw[64 := 28]) = ''0x'' @ hex_Encode (take 64 raw) @ ''1c'')"
proof -
  have sign_fwd: "\<forall>key raw. crypto_HexToECDSA L k = Inr key
    \<and> crypto_Sign L (tools_SignHash L data') key = Inr raw
    \<and> 64 < length raw \<longrightarrow>
    outcome (Sign L w data' k) = Returned (Some (raw[64 := raw ! 64 + 27])) None"
  proof (intro allI impI)
    fix key raw
    assume h: "crypto_HexToECDSA L k = Inr key
      \<and> crypto_Sign L (tools_SignHash L data') key = Inr raw
      \<and> 64 < length raw"
    from h have h1: "crypto_HexToECDSA L k = Inr key"
      and h2: "crypto_Sign L (tools_SignHash L data') key = Inr raw"
      and h3: "64 < length raw"
      by simp_all
    show "outcome (Sign L w data' k) = Returned (Some (raw[64 := raw ! 64 + 27])) None"
      by (simp add: Sign_run [OF h1 h2 h3])
  qed
  have SignBuyer_fwd: "\<forall>key raw. crypto_HexToECDSA L (priKey w) = Inr key
    \<and> crypto_Sign L (tools_SignHash L (bytes_of_string (SignBuyer_msg amount
        nftAddress exchanger blockNumber seller))) key = Inr raw
    \<and> 64 < length raw \<longrightarrow>
    outcome (SignBuyer L w amount nftAddress exchanger blockNumber seller)
    = (case json_Marshal L (BuyerValue \<lparr>Amount = amount, NFTAddress = nftAddress,
        Exchanger = exchanger, BlockNumber = blockNumber, Seller = seller, Sig =
        hexutil_Encode (raw[64 := raw ! 64 + 27])\<rparr>) of Inl err \<Rightarrow>
        Returned None (Some (Lib err)) | Inr result \<Rightarrow> Returned (Some result)
        None)"
  proof (intro allI impI)
    fix key raw
    assume h: "crypto_HexToECDSA L (priKey w) = Inr key
      \<and> crypto_Sign L (tools_SignHash L (bytes_of_string (SignBuyer_msg amount
          nftAddress exchanger blockNumber seller))) key = Inr raw
      \<and> 64 < length raw"
    from h have h1: "crypto_HexToECDSA L (priKey w) = Inr key"
      and h2: "crypto_Sign L (tools_SignHash L (bytes_of_string (SignBuyer_msg amount nftAddress
            exchanger blockNumber seller))) key = Inr raw"
      and h3: "64 < length raw"
      by simp_all
    show "outcome (SignBuyer L w amount nftAddress exchanger blockNumber seller)
      = (case json_Marshal L (BuyerValue \<lparr>Amount = amount, NFTAddress = nftAddress,
          Exchanger = exchanger, BlockNumber = blockNumber, Seller = seller, Sig =
          hexutil_Encode (raw[64 := raw ! 64 + 27])\<rparr>) of Inl err \<Rightarrow>
          Returned None (Some (Lib err)) | Inr result \<Rightarrow> Returned (Some result)
          None)"
      by (simp add: SignBuyer_run [OF h1 h2 h3])
  qed
  have SignSeller1_fwd: "\<forall>key raw. crypto_HexToECDSA L (priKey w) = Inr key
    \<and> crypto_Sign L (tools_SignHash L (bytes_of_string (SignSeller1_msg amount
        nftAddress exchanger blockNumber))) key = Inr raw
    \<and> 64 < length raw \<longrightarrow>
    outcome (SignSeller1 L w amount nftAddress exchanger blockNumber)
    = (case json_Marshal L (Seller1Value \<lparr>Amount1 = amount, NFTAddress1 =
        nftAddress, Exchanger1 = exchanger, BlockNumber1 = blockNumber, Sig1 =
        hexutil_Encode (raw[64 := raw ! 64 + 27])\<rparr>) of Inl err \<Rightarrow>
        Returned None (Some (Lib err)) | Inr result \<Rightarrow> Returned (Some result)
        None)"
  proof (intro allI impI)
    fix key raw
    assume h: "crypto_HexToECDSA L (priKey w) = Inr key
      \<and> crypto_Sign L (tools_SignHash L (bytes_of_string (SignSeller1_msg amount
          nftAddress exchanger blockNumber))) key = Inr raw
      \<and> 64 < length raw"
    from h have h1: "crypto_HexToECDSA L (priKey w) = Inr key"
      and h2: "crypto_Sign L (tools_SignHash L (bytes_of_string (SignSeller1_msg amount nftAddress
            exchanger blockNumber))) key = Inr raw"
      and h3: "64 < length raw"
      by simp_all
    show "outcome (SignSeller1 L w amount nftAddress exchanger blockNumber)
      = (case json_Marshal L (Seller1Value \<lparr>Amount1 = amount, NFTAddress1 =
          nftAddress, Exchanger1 = exchanger, BlockNumber1 = blockNumber, Sig1 =
          hexutil_Encode (raw[64 := raw ! 64 + 27])\<rparr>) of Inl err \<Rightarrow>
          Returned None (Some (Lib err)) | Inr result \<Rightarrow> Returned (Some result)
          None)"
      by (simp add: SignSeller1_run [OF h1 h2 h3])
  qed
  have SignSeller2_fwd: "\<forall>key raw. crypto_HexToECDSA L (priKey w) = Inr key
    \<and> crypto_Sign L (tools_SignHash L (bytes_of_string (SignSeller2_msg amount royalty
        metaURL exclusiveFlag exchanger blockNumber))) key = Inr raw
    \<and> 64 < length raw \<longrightarrow>
    outcome (SignSeller2 L w amount royalty metaURL exclusiveFlag exchanger blockNumber)
    = (case json_Marshal L (Seller2Value \<lparr>Amount2 = amount, Royalty2 = royalty,
        MetaURL2 = metaURL, ExclusiveFlag2 = exclusiveFlag, Exchanger2 = exchanger,
        BlockNumber2 = blockNumber, Sig2 = hexutil_Encode (raw[64 := raw ! 64 +
        27])\<rparr>) of Inl err \<Rightarrow> Returned None (Some (Lib err)) | Inr result
        \<Rightarrow> Returned (Some result) None)"
  proof (intro allI impI)
    fix key raw
    assume h: "crypto_HexToECDSA L (priKey w) = Inr key
      \<and> crypto_Sign L (tools_SignHash L (bytes_of_string (SignSeller2_msg amount
          royalty metaURL exclusiveFlag exchanger blockNumber))) key = Inr raw
      \<and> 64 < length raw"
    from h have h1: "crypto_HexToECDSA L (priKey w) = Inr key"
      and h2: "crypto_Sign L (tools_SignHash L (bytes_of_string (SignSeller2_msg amount royalty
            metaURL exclusiveFlag exchanger blockNumber))) key = Inr raw"
      and h3: "64 < length raw"
      by simp_all
    show "outcome (SignSeller2 L w amount royalty metaURL exclusiveFlag exchanger blockNumber)
      = (case json_Marshal L (Seller2Value \<lparr>Amount2 = amount, Royalty2 = royalty,
          MetaURL2 = metaURL, ExclusiveFlag2 = exclusiveFlag, Exchanger2 = exchanger,
          BlockNumber2 = blockNumber, Sig2 = hexutil_Encode (raw[64 := raw ! 64 +
          27])\<rparr>) of Inl err \<Rightarrow> Returned None (Some (Lib err)) | Inr
          result \<Rightarrow> Returned (Some result) None)"
      by (simp add: SignSeller2_run [OF h1 h2 h3])
  qed
  have SignExchanger_fwd: "\<forall>key raw. crypto_HexToECDSA L (priKey w) = Inr key
    \<and> crypto_Sign L (tools_SignHash L (bytes_of_string (SignExchanger_msg
        exchangerOwner to blockNumber))) key = Inr raw
    \<and> 64 < length raw \<longrightarrow>
    outcome (SignExchanger L w exchangerOwner to blockNumber)
    = (case json_Marshal L (ExchangerAuthValue \<lparr>ExchangerOwner = exchangerOwner, To
        = to, BlockNumberA = blockNumber, SigA = hexutil_Encode (raw[64 := raw ! 64 +
        27])\<rparr>) of Inl err \<Rightarrow> Returned None (Some (Lib err)) | Inr result
        \<Rightarrow> Returned (Some result) None)"
  proof (intro allI impI)
    fix key raw
    assume h: "crypto_HexToECDSA L (priKey w) = Inr key
      \<and> crypto_Sign L (tools_SignHash L (bytes_of_string (SignExchanger_msg
          exchangerOwner to blockNumber))) key = Inr raw
      \<and> 64 < length raw"
    from h have h1: "crypto_HexToECDSA L (priKey w) = Inr key"
      and h2: "crypto_Sign L (tools_SignHash L (bytes_of_string (SignExchanger_msg exchangerOwner
            to blockNumber))) key = Inr raw"
      and h3: "64 < length raw"
      by simp_all
    show "outcome (SignExchanger L w exchangerOwner to blockNumber)
      = (case json_Marshal L (ExchangerAuthValue \<lparr>ExchangerOwner = exchangerOwner,
          To = to, BlockNumberA = blockNumber, SigA = hexutil_Encode (raw[64 := raw ! 64 +
          27])\<rparr>) of Inl err \<Rightarrow> Returned None (Some (Lib err)) | Inr
          result \<Rightarrow> Returned (Some result) None)"
      by (simp add: SignExchanger_run [OF h1 h2 h3])
  qed
  have delegate_fwd: "\<forall>key raw. crypto_HexToECDSA L (priKey w) = Inr key
    \<and> crypto_Sign L (tools_SignHash L (bytes_of_string (SignDelegate_msg address
        pledgeAccount))) key = Inr raw
    \<and> 64 < length raw \<longrightarrow>
    outcome (SignDelegate L w address pledgeAccount)
    = Returned (Some (bytes_of_string (hexutil_Encode (raw[64 := raw ! 64 + 27])))) None"
  proof (intro allI impI)
    fix key raw
    assume h: "crypto_HexToECDSA L (priKey w) = Inr key
      \<and> crypto_Sign L (tools_SignHash L (bytes_of_string (SignDelegate_msg address
          pledgeAccount))) key = Inr raw
      \<and> 64 < length raw"
    from h have h1: "crypto_HexToECDSA L (priKey w) = Inr key"
      and h2: "crypto_Sign L (tools_SignHash L (bytes_of_string (SignDelegate_msg address
            pledgeAccount))) key = Inr raw"
      and h3: "64 < length raw"
      by simp_all
    show "outcome (SignDelegate L w address pledgeAccount)
      = Returned (Some (bytes_of_string (hexutil_Encode (raw[64 := raw ! 64 + 27])))) None"
      by (simp add: SignDelegate_run [OF h1 h2 h3])
  qed
  have sign_bwd: "outcome (Sign L w data' k) = Returned (Some result) None \<longrightarrow>
    (\<exists>key raw. crypto_HexToECDSA L k = Inr key
    \<and> crypto_Sign L (tools_SignHash L data') key = Inr raw
    \<and> 64 < length raw
    \<and> result = raw[64 := raw ! 64 + 27])"
  proof (intro impI)
    assume s: "outcome (Sign L w data' k) = Returned (Some result) None"
    from Sign_success [OF s] show "\<exists>key raw. crypto_HexToECDSA L k = Inr key
      \<and> crypto_Sign L (tools_SignHash L data') key = Inr raw
      \<and> 64 < length raw
      \<and> result = raw[64 := raw ! 64 + 27]"
      by blast
  qed
  have SignBuyer_bwd: "outcome (SignBuyer L w amount nftAddress exchanger blockNumber seller) = Returned (Some
        result) None \<longrightarrow>
    (\<exists>key raw. crypto_HexToECDSA L (priKey w) = Inr key
    \<and> crypto_Sign L (tools_SignHash L (bytes_of_string (SignBuyer_msg amount
        nftAddress exchanger blockNumber seller))) key = Inr raw
    \<and> 64 < length raw
    \<and> json_Marshal L (BuyerValue \<lparr>Amount = amount, NFTAddress = nftAddress,
        Exchanger = exchanger, BlockNumber = blockNumber, Seller = seller, Sig =
        hexutil_Encode (raw[64 := raw ! 64 + 27])\<rparr>) = Inr result)"
  proof (intro impI)
    assume s: "outcome (SignBuyer L w amount nftAddress exchanger blockNumber seller) = Returned
          (Some result) None"
    from SignBuyer_success [OF s] show "\<exists>key raw. crypto_HexToECDSA L (priKey w) = Inr key
      \<and> crypto_Sign L (tools_SignHash L (bytes_of_string (SignBuyer_msg amount
          nftAddress exchanger blockNumber seller))) key = Inr raw
      \<and> 64 < length raw
      \<and> json_Marshal L (BuyerValue \<lparr>Amount = amount, NFTAddress = nftAddress,
          Exchanger = exchanger, BlockNumber = blockNumber, Seller = seller, Sig =
          hexutil_Encode (raw[64 := raw ! 64 + 27])\<rparr>) = Inr result"
      by blast
  qed
  have SignSeller1_bwd: "outcome (SignSeller1 L w amount nftAddress exchanger blockNumber) = Returned (Some
        result) None \<longrightarrow>
    (\<exists>key raw. crypto_HexToECDSA L (priKey w) = Inr key
    \<and> crypto_Sign L (tools_SignHash L (bytes_of_string (SignSeller1_msg amount
        nftAddress exchanger blockNumber))) key = Inr raw
    \<and> 64 < length raw
    \<and> json_Marshal L (Seller1Value \<lparr>Amount1 = amount, NFTAddress1 = nftAddress,
        Exchanger1 = exchanger, BlockNumber1 = blockNumber, Sig1 = hexutil_Encode (raw[64
        := raw ! 64 + 27])\<rparr>) = Inr result)"
  proof (intro impI)
    assume s: "outcome (SignSeller1 L w amount nftAddress exchanger blockNumber) = Returned (Some
          result) None"
    from SignSeller1_success [OF s] show "\<exists>key raw. crypto_HexToECDSA L (priKey w) = Inr key
      \<and> crypto_Sign L (tools_SignHash L (bytes_of_string (SignSeller1_msg amount
          nftAddress exchanger blockNumber))) key = Inr raw
      \<and> 64 < length raw
      \<and> json_Marshal L (Seller1Value \<lparr>Amount1 = amount, NFTAddress1 =
          nftAddress, Exchanger1 = exchanger, BlockNumber1 = blockNumber, Sig1 =
          hexutil_Encode (raw[64 := raw ! 64 + 27])\<rparr>) = Inr result"
      by blast
  qed
  have SignSeller2_bwd: "outcome (SignSeller2 L w amount royalty metaURL exclusiveFlag exchanger blockNumber) =
        Returned (Some result) None \<longrightarrow>
    (\<exists>key raw. crypto_HexToECDSA L (priKey w) = Inr key
    \<and> crypto_Sign L (tools_SignHash L (bytes_of_string (SignSeller2_msg amount royalty
        metaURL exclusiveFlag exchanger blockNumber))) key = Inr raw
    \<and> 64 < length raw
    \<and> json_Marshal L (Seller2Value \<lparr>Amount2 = amount, Royalty2 = royalty,
        MetaURL2 = metaURL, ExclusiveFlag2 = exclusiveFlag, Exchanger2 = exchanger,
        BlockNumber2 = blockNumber, Sig2 = hexutil_Encode (raw[64 := raw ! 64 +
        27])\<rparr>) = Inr result)"
  proof (intro impI)
    assume s: "outcome (SignSeller2 L w amount royalty metaURL exclusiveFlag exchanger blockNumber)
          = Returned (Some result) None"
    from SignSeller2_success [OF s] show "\<exists>key raw. crypto_HexToECDSA L (priKey w) = Inr key
      \<and> crypto_Sign L (tools_SignHash L (bytes_of_string (SignSeller2_msg amount
          royalty metaURL exclusiveFlag exchanger blockNumber))) key = Inr raw
      \<and> 64 < length raw
      \<and> json_Marshal L (Seller2Value \<lparr>Amount2 = amount, Royalty2 = royalty,
          MetaURL2 = metaURL, ExclusiveFlag2 = exclusiveFlag, Exchanger2 = exchanger,
          BlockNumber2 = blockNumber, Sig2 = hexutil_Encode (raw[64 := raw ! 64 +
          27])\<rparr>) = Inr result"
      by blast
  qed
  have SignExchanger_bwd: "outcome (SignExchanger L w exchangerOwner to blockNumber) = Returned (Some result) None
        \<longrightarrow>
    (\<exists>key raw. crypto_HexToECDSA L (priKey w) = Inr key
    \<and> crypto_Sign L (tools_SignHash L (bytes_of_string (SignExchanger_msg
        exchangerOwner to blockNumber))) key = Inr raw
    \<and> 64 < length raw
    \<and> json_Marshal L (ExchangerAuthValue \<lparr>ExchangerOwner = exchangerOwner, To =
        to, BlockNumberA = blockNumber, SigA = hexutil_Encode (raw[64 := raw ! 64 +
        27])\<rparr>) = Inr result)"
  proof (intro impI)
    assume s: "outcome (SignExchanger L w exchangerOwner to blockNumber) = Returned (Some result)
          None"
    from SignExchanger_success [OF s] show "\<exists>key raw. crypto_HexToECDSA L (priKey w) = Inr key
      \<and> crypto_Sign L (tools_SignHash L (bytes_of_string (SignExchanger_msg
          exchangerOwner to blockNumber))) key = Inr raw
      \<and> 64 < length raw
      \<and> json_Marshal L (ExchangerAuthValue \<lparr>ExchangerOwner = exchangerOwner, To
          = to, BlockNumberA = blockNumber, SigA = hexutil_Encode (raw[64 := raw ! 64 +
          27])\<rparr>) = Inr result"
      by blast
  qed
  have delegate_bwd: "outcome (SignDelegate L w address pledgeAccount) = Returned (Some result) None
        \<longrightarrow>
    (\<exists>key raw. crypto_HexToECDSA L (priKey w) = Inr key
    \<and> crypto_Sign L (tools_SignHash L (bytes_of_string (SignDelegate_msg address
        pledgeAccount))) key = Inr raw
    \<and> 64 < length raw
    \<and> result = bytes_of_string (hexutil_Encode (raw[64 := raw ! 64 + 27])))"
  proof (intro impI)
    assume s: "outcome (SignDelegate L w address pledgeAccount) = Returned (Some result) None"
    from SignDelegate_success [OF s] show "\<exists>key raw. crypto_HexToECDSA L (priKey w) = Inr key
      \<and> crypto_Sign L (tools_SignHash L (bytes_of_string (SignDelegate_msg address
          pledgeAccount))) key = Inr raw
      \<and> 64 < length raw
      \<and> result = bytes_of_string (hexutil_Encode (raw[64 := raw ! 64 + 27]))"
      by blast
  qed
  have raised: "\<forall>raw :: byte list. 64 < length raw \<longrightarrow>
    recovery_raised raw (raw[64 := raw ! 64 + 27])"
    by (simp add: recovery_raised_update)
  have range: "\<forall>raw out. recovery_raised raw out
    \<and> (raw ! 64 = 0 \<or> raw ! 64 = 1) \<longrightarrow>
    out ! 64 = 27 \<or> out ! 64 = 28"
    using recovery_raised_range by blast
  have hex: "\<forall>raw :: byte list. length raw = 65 \<longrightarrow>
    hexutil_Encode (raw[64 := 27]) = ''0x'' @ hex_Encode (take 64 raw) @ ''1b''
    \<and> hexutil_Encode (raw[64 := 28]) = ''0x'' @ hex_Encode (take 64 raw) @ ''1c''"
    by (simp add: hexutil_Encode_recovery hextable_def)
  show ?thesis
    by (intro conjI) (rule sign_fwd, rule SignBuyer_fwd, rule SignSeller1_fwd, rule SignSeller2_fwd, rule SignExchanger_fwd, rule delegate_fwd, rule sign_bwd, rule SignBuyer_bwd, rule SignSeller1_bwd, rule SignSeller2_bwd, rule SignExchanger_bwd, rule delegate_bwd, rule raised, rule range, rule hex)
qed

theorem recovery_byte_is_raw_plus_27_witness:
  "outcome (Sign demo_libs demo_wallet (bytes_of_string ''addresspledgeAccount'')
         buyerPriKey) = Returned (Some (replicate 64 17 @ [28])) None
   \<and> outcome (SignBuyer demo_libs demo_wallet ''0xde0b6b3a7640000''
         ''0x0000000000000000000000000000000000000002''
         ''0x8b07aff2327a3B7e2876D899caFac99f7AE16B10'' ''0x677'' '''')
     = Returned (Some (bytes_of_string (''{'' @ demo_members [(''Amount'',
         ''0xde0b6b3a7640000''), (''NFTAddress'',
         ''0x0000000000000000000000000000000000000002''), (''Exchanger'',
         ''0x8b07aff2327a3B7e2876D899caFac99f7AE16B10''), (''BlockNumber'', ''0x677''),
         (''Seller'', ''''), (''Sig'', hexutil_Encode (replicate 64 17 @ [28]))] @ ''}'')))
         None
   \<and> outcome (SignSeller1 demo_libs demo_wallet ''0x38D7EA4C68000''
         ''0x0000000000000000000000000000000000000003''
         ''0x8b07aff2327a3B7e2876D899caFac99f7AE16B10'' ''0x677'')
     = Returned (Some (bytes_of_string (''{'' @ demo_members [(''Amount'',
         ''0x38D7EA4C68000''), (''NFTAddress'',
         ''0x0000000000000000000000000000000000000003''), (''Exchanger'',
         ''0x8b07aff2327a3B7e2876D899caFac99f7AE16B10''), (''BlockNumber'', ''0x677''),
         (''Sig'', hexutil_Encode (replicate 64 17 @ [28]))] @ ''}''))) None
   \<and> outcome (SignSeller2 demo_libs demo_wallet ''0x38D7EA4C68000'' ''0xa''
         ''/ipfs/qqqqqqqqqq'' ''0'' ''0x8b07aff2327a3B7e2876D899caFac99f7AE16B10''
         ''0x677'')
     = Returned (Some (bytes_of_string (''{'' @ demo_members [(''Amount'',
         ''0x38D7EA4C68000''), (''Royalty'', ''0xa''), (''MetaURL'', ''/ipfs/qqqqqqqqqq''),
         (''ExclusiveFlag'', ''0''), (''Exchanger'',
         ''0x8b07aff2327a3B7e2876D899caFac99f7AE16B10''), (''BlockNumber'', ''0x677''),
         (''Sig'', hexutil_Encode (replicate 64 17 @ [28]))] @ ''}''))) None
   \<and> outcome (SignExchanger demo_libs demo_wallet
         ''0xaECE03150f0A6565e8308E872Bf3Ec143A0b4879''
         ''0xC83279D0fEdd3A814aBe250007c61E324Ba467E6'' ''0xa'')
     = Returned (Some (bytes_of_string (''{'' @ demo_members [(''ExchangerOwner'',
         ''0xaECE03150f0A6565e8308E872Bf3Ec143A0b4879''), (''To'',
         ''0xC83279D0fEdd3A814aBe250007c61E324Ba467E6''), (''BlockNumber'', ''0xa''),
         (''Sig'', hexutil_Encode (replicate 64 17 @ [28]))] @ ''}''))) None
   \<and> outcome (SignDelegate demo_libs demo_wallet ''address'' ''pledgeAccount'')
     = Returned (Some (bytes_of_string (hexutil_Encode (replicate 64 17 @ [28])))) None
   \<and> recovery_raised (replicate 64 17 @ [1]) (replicate 64 17 @ [28])
   \<and> (replicate 64 17 @ [28 :: byte]) ! 64 = 28
   \<and> hexutil_Encode (replicate 64 17 @ [28]) = ''0x'' @ hex_Encode (replicate 64 17) @
         ''1c''"
proof -
  have r0: "outcome (Sign demo_libs demo_wallet (bytes_of_string ''addresspledgeAccount'')
        buyerPriKey) = Returned (Some (replicate 64 17 @ [28])) None"
    using recovery_byte_is_raw_plus_27 [where L = demo_libs and w = demo_wallet and data' = "bytes_of_string ''addresspledgeAccount''" and k = buyerPriKey,
        THEN conjunct1, rule_format, of buyerPriKey "replicate 64 17 @ [1]"]
      demo_key_arg demo_sign
    by (simp add: demo_raised demo_libs_marshal demo_fields_def)
  have r1: "outcome (SignBuyer demo_libs demo_wallet ''0xde0b6b3a7640000''
        ''0x0000000000000000000000000000000000000002''
        ''0x8b07aff2327a3B7e2876D899caFac99f7AE16B10'' ''0x677'' '''')
    = Returned (Some (bytes_of_string (''{'' @ demo_members [(''Amount'',
        ''0xde0b6b3a7640000''), (''NFTAddress'',
        ''0x0000000000000000000000000000000000000002''), (''Exchanger'',
        ''0x8b07aff2327a3B7e2876D899caFac99f7AE16B10''), (''BlockNumber'', ''0x677''),
        (''Seller'', ''''), (''Sig'', hexutil_Encode (replicate 64 17 @ [28]))] @ ''}'')))
        None"
    using recovery_byte_is_raw_plus_27 [where L = demo_libs and w = demo_wallet and amount = "''0xde0b6b3a7640000''" and nftAddress = "''0x0000000000000000000000000000000000000002''" and exchanger = "''0x8b07aff2327a3B7e2876D899caFac99f7AE16B10''" and blockNumber = "''0x677''" and seller = "''''",
        THEN conjunct2, THEN conjunct1, rule_format, of buyerPriKey "replicate 64 17 @ [1]"]
      demo_key demo_sign
    by (simp add: demo_raised demo_libs_marshal demo_fields_def)
  have r2: "outcome (SignSeller1 demo_libs demo_wallet ''0x38D7EA4C68000''
        ''0x0000000000000000000000000000000000000003''
        ''0x8b07aff2327a3B7e2876D899caFac99f7AE16B10'' ''0x677'')
    = Returned (Some (bytes_of_string (''{'' @ demo_members [(''Amount'',
        ''0x38D7EA4C68000''), (''NFTAddress'',
        ''0x0000000000000000000000000000000000000003''), (''Exchanger'',
        ''0x8b07aff2327a3B7e2876D899caFac99f7AE16B10''), (''BlockNumber'', ''0x677''),
        (''Sig'', hexutil_Encode (replicate 64 17 @ [28]))] @ ''}''))) None"
    using recovery_byte_is_raw_plus_27 [where L = demo_libs and w = demo_wallet and amount = "''0x38D7EA4C68000''" and nftAddress = "''0x0000000000000000000000000000000000000003''" and exchanger = "''0x8b07aff2327a3B7e2876D899caFac99f7AE16B10''" and blockNumber = "''0x677''",
        THEN conjunct2, THEN conjunct2, THEN conjunct1, rule_format, of buyerPriKey "replicate 64 17 @ [1]"]
      demo_key demo_sign
    by (simp add: demo_raised demo_libs_marshal demo_fields_def)
  have r3: "outcome (SignSeller2 demo_libs demo_wallet ''0x38D7EA4C68000'' ''0xa''
        ''/ipfs/qqqqqqqqqq'' ''0'' ''0x8b07aff2327a3B7e2876D899caFac99f7AE16B10''
        ''0x677'')
    = Returned (Some (bytes_of_string (''{'' @ demo_members [(''Amount'',
        ''0x38D7EA4C68000''), (''Royalty'', ''0xa''), (''MetaURL'', ''/ipfs/qqqqqqqqqq''),
        (''ExclusiveFlag'', ''0''), (''Exchanger'',
        ''0x8b07aff2327a3B7e2876D899caFac99f7AE16B10''), (''BlockNumber'', ''0x677''),
        (''Sig'', hexutil_Encode (replicate 64 17 @ [28]))] @ ''}''))) None"
    using recovery_byte_is_raw_plus_27 [where L = demo_libs and w = demo_wallet and amount = "''0x38D7EA4C68000''" and royalty = "''0xa''" and metaURL = "''/ipfs/qqqqqqqqqq''" and exclusiveFlag = "''0''" and exchanger = "''0x8b07aff2327a3B7e2876D899caFac99f7AE16B10''" and blockNumber = "''0x677''",
        THEN conjunct2, THEN conjunct2, THEN conjunct2, THEN conjunct1, rule_format, of buyerPriKey "replicate 64 17 @ [1]"]
      demo_key demo_sign
    by (simp add: demo_raised demo_libs_marshal demo_fields_def)
  have r4: "outcome (SignExchanger demo_libs demo_wallet
        ''0xaECE03150f0A6565e8308E872Bf3Ec143A0b4879''
        ''0xC83279D0fEdd3A814aBe250007c61E324Ba467E6'' ''0xa'')
    = Returned (Some (bytes_of_string (''{'' @ demo_members [(''ExchangerOwner'',
        ''0xaECE03150f0A6565e8308E872Bf3Ec143A0b4879''), (''To'',
        ''0xC83279D0fEdd3A814aBe250007c61E324Ba467E6''), (''BlockNumber'', ''0xa''),
        (''Sig'', hexutil_Encode (replicate 64 17 @ [28]))] @ ''}''))) None"
    using recovery_byte_is_raw_plus_27 [where L = demo_libs and w = demo_wallet and exchangerOwner = "''0xaECE03150f0A6565e8308E872Bf3Ec143A0b4879''" and to = "''0xC83279D0fEdd3A814aBe250007c61E324Ba467E6''" and blockNumber = "''0xa''",
        THEN conjunct2, THEN conjunct2, THEN conjunct2, THEN conjunct2, THEN conjunct1, rule_format, of buyerPriKey "replicate 64 17 @ [1]"]
      demo_key demo_sign
    by (simp add: demo_raised demo_libs_marshal demo_fields_def)
  have r5: "outcome (SignDelegate demo_libs demo_wallet ''address'' ''pledgeAccount'')
    = Returned (Some (bytes_of_string (hexutil_Encode (replicate 64 17 @ [28])))) None"
    using recovery_byte_is_raw_plus_27 [where L = demo_libs and w = demo_wallet and address = "''address''" and pledgeAccount = "''pledgeAccount''",
        THEN conjunct2, THEN conjunct2, THEN conjunct2, THEN conjunct2, THEN conjunct2, THEN conjunct1, rule_format, of buyerPriKey "replicate 64 17 @ [1]"]
      demo_key demo_sign
    by (simp add: demo_raised demo_libs_marshal demo_fields_def)
  have raised: "recovery_raised (replicate 64 17 @ [1]) (replicate 64 17 @ [28])"
    using recovery_byte_is_raw_plus_27 [where L = demo_libs, THEN conjunct2, THEN conjunct2, THEN conjunct2, THEN conjunct2, THEN conjunct2, THEN conjunct2, THEN conjunct2, THEN conjunct2, THEN conjunct2, THEN conjunct2, THEN conjunct2, THEN conjunct2, THEN conjunct1, rule_format, of "replicate 64 17 @ [1]"]
    by (simp add: demo_raised)
  have one: "(replicate 64 17 @ [1 :: byte]) ! 64 = 1"
    by (simp add: nth_append)
  have "(replicate 64 17 @ [28 :: byte]) ! 64 = 27 \<or> (replicate 64 17 @ [28 :: byte]) ! 64 = 28"
    using recovery_byte_is_raw_plus_27 [where L = demo_libs, THEN conjunct2, THEN conjunct2, THEN conjunct2, THEN conjunct2, THEN conjunct2, THEN conjunct2, THEN conjunct2, THEN conjunct2, THEN conjunct2, THEN conjunct2, THEN conjunct2, THEN conjunct2, THEN conjunct2, THEN conjunct1, rule_format, of "replicate 64 17 @ [1]" "replicate 64 17 @ [28]"]
      raised one by blast
  then have last: "(replicate 64 17 @ [28 :: byte]) ! 64 = 28"
    by (simp add: nth_append)
  have hex: "hexutil_Encode (replicate 64 17 @ [28]) = ''0x'' @ hex_Encode (replicate 64 17) @ ''1c''"
    using recovery_byte_is_raw_plus_27 [where L = demo_libs, THEN conjunct2, THEN conjunct2, THEN conjunct2, THEN conjunct2, THEN conjunct2, THEN conjunct2, THEN conjunct2, THEN conjunct2, THEN conjunct2, THEN conjunct2, THEN conjunct2, THEN conjunct2, THEN conjunct2, THEN conjunct2, rule_format, of "replicate 64 17 @ [1]"]
    by (simp add: list_update_append)
  show ?thesis
    by (intro conjI) (rule r0, rule r1, rule r2, rule r3, rule r4, rule r5, rule raised, rule last, rule hex)
qed







section \<open>A key that does not parse\<close>

text \<open>
  Claim C7. When \<open>crypto.HexToECDSA\<close> rejects the key, each signing operation returns a
  nil result and that error, unchanged, after this one call: the key is not parsed a
  second time, nothing is signed and nothing is serialised.
\<close>

theorem malformed_key_returns_parse_error:
  "(crypto_HexToECDSA L k = Inl err \<longrightarrow>
      Sign L w data' k = ([Call_HexToECDSA k], Returned None (Some (Lib err))))
   \<and> (crypto_HexToECDSA L (priKey w) = Inl err \<longrightarrow>
      SignBuyer L w amount nftAddress exchanger blockNumber seller
        = ([Call_HexToECDSA (priKey w)], Returned None (Some (Lib err)))
      \<and> SignSeller1 L w amount nftAddress exchanger blockNumber
        = ([Call_HexToECDSA (priKey w)], Returned None (Some (Lib err)))
      \<and> SignSeller2 L w amount royalty metaURL exclusiveFlag exchanger blockNumber
        = ([Call_HexToECDSA (priKey w)], Returned None (Some (Lib err)))
      \<and> SignExchanger L w exchangerOwner to blockNumber
        = ([Call_HexToECDSA (priKey w)], Returned None (Some (Lib err)))
      \<and> SignDelegate L w address pledgeAccount
        = ([Call_HexToECDSA (priKey w)], Returned None (Some (Lib err))))"
  by (simp add: Sign_def SignBuyer_def SignSeller1_def SignSeller2_def SignExchanger_def
        SignDelegate_def calling_def)

theorem malformed_key_returns_parse_error_witness:
  "crypto_HexToECDSA demo_libs ''50fd980dab6b010c'' = Inl ''invalid length, need 256 bits''
   \<and> Sign demo_libs demo_wallet [1, 2, 3] ''50fd980dab6b010c''
       = ([Call_HexToECDSA ''50fd980dab6b010c''],
          Returned None (Some (Lib ''invalid length, need 256 bits'')))
   \<and> SignBuyer demo_libs short_key_wallet ''0xde0b6b3a7640000'' '''' ''0xaECE'' ''0xa'' ''''
       = ([Call_HexToECDSA ''50fd980dab6b010c''],
          Returned None (Some (Lib ''invalid length, need 256 bits'')))
   \<and> SignDelegate demo_libs short_key_wallet ''address'' ''pledgeAccount''
       = ([Call_HexToECDSA ''50fd980dab6b010c''],
          Returned None (Some (Lib ''invalid length, need 256 bits'')))"
proof -
  have bad: "crypto_HexToECDSA demo_libs ''50fd980dab6b010c'' = Inl ''invalid length, need 256 bits''"
    by (simp add: demo_libs_def)
  have k: "priKey short_key_wallet = ''50fd980dab6b010c''"
    by (simp add: short_key_wallet_def)
  show ?thesis
    using bad k
      malformed_key_returns_parse_error [where L = demo_libs and k = "''50fd980dab6b010c''"
        and err = "''invalid length, need 256 bits''" and w = demo_wallet and data' = "[1, 2, 3]"]
      malformed_key_returns_parse_error [where L = demo_libs and k = "''50fd980dab6b010c''"
        and err = "''invalid length, need 256 bits''" and w = short_key_wallet
        and amount = "''0xde0b6b3a7640000''" and nftAddress = "''''" and exchanger = "''0xaECE''"
        and blockNumber = "''0xa''" and seller = "''''" and address = "''address''"
        and pledgeAccount = "''pledgeAccount''"]
    by simp
qed

section \<open>Two runs\<close>









section \<open>Queries: a missing resource is told apart from a failed call\<close>

lemma null_guard_never_nil_nil:
  "(if err = None \<and> r = None then Returned None (Some NotFound) else Returned r (map_option Lib err))
     \<noteq> Returned None None"
  by (cases err) auto

text \<open>
  Claim C8. \<open>TransactionReceipt\<close> returns \<open>ethereum.NotFound\<close> exactly when the client is
  connected and the RPC call succeeds (nil error) with a null receipt; when the call
  fails, its error is returned as it is, next to whatever the call left in the result;
  a receipt that was found is returned with a nil error.
\<close>

theorem TransactionReceipt_not_found_iff:
  "((\<exists>x. TransactionReceipt CallContext worm txHash = Returned x (Some NotFound))
      \<longleftrightarrow> (\<exists>conn. c worm = Some conn
            \<and> CallContext conn ''eth_getTransactionReceipt'' [common_HexToHash txHash] = (None, None)))
   \<and> (\<forall>conn r e. c worm = Some conn
            \<and> CallContext conn ''eth_getTransactionReceipt'' [common_HexToHash txHash] = (r, Some e)
          \<longrightarrow> TransactionReceipt CallContext worm txHash = Returned r (Some (Lib e)))
   \<and> (\<forall>conn v. c worm = Some conn
            \<and> CallContext conn ''eth_getTransactionReceipt'' [common_HexToHash txHash] = (Some v, None)
          \<longrightarrow> TransactionReceipt CallContext worm txHash = Returned (Some v) None)"
proof (cases "c worm")
  case None
  then show ?thesis by (simp add: TransactionReceipt_def)
next
  case (Some conn)
  obtain r err where call:
    "CallContext conn ''eth_getTransactionReceipt'' [common_HexToHash txHash] = (r, err)"
    by (cases "CallContext conn ''eth_getTransactionReceipt'' [common_HexToHash txHash]")
  show ?thesis
    using Some call by (cases err; cases r) (simp_all add: TransactionReceipt_def)
qed

theorem TransactionReceipt_not_found_iff_witness:
  "TransactionReceipt null_node demo_client ''0x1234'' = Returned None (Some NotFound)
   \<and> TransactionReceipt down_node demo_client ''0x1234''
       = Returned None (Some (Lib ''connection refused''))"
proof -
  have conn: "c demo_client = Some ()" by (simp add: demo_client_def)
  have null: "null_node () ''eth_getTransactionReceipt'' [common_HexToHash ''0x1234''] = (None, None)"
    by (simp add: null_node_def)
  have down: "down_node () ''eth_getTransactionReceipt'' [common_HexToHash ''0x1234'']
                = (None, Some ''connection refused'')"
    by (simp add: down_node_def)
  from TransactionReceipt_not_found_iff [of null_node demo_client "''0x1234''"] conn null
  obtain x where x: "TransactionReceipt null_node demo_client ''0x1234'' = Returned x (Some NotFound)"
    by blast
  have "x = None" using x conn null by (simp add: TransactionReceipt_def)
  moreover from TransactionReceipt_not_found_iff [of down_node demo_client "''0x1234''"] conn down
  have "TransactionReceipt down_node demo_client ''0x1234''
          = Returned None (Some (Lib ''connection refused''))" by blast
  ultimately show ?thesis using x by simp
qed

text \<open>
  Claim C10. \<open>GetValidators\<close>, \<open>GetAccountInfo\<close> and
  \<open>GetBlockBeneficiaryAddressByNumber\<close> never return a nil result with a nil error:
  whenever the call succeeds with a null result they return \<open>ethereum.NotFound\<close>, as
  \<open>TransactionReceipt\<close> does.
\<close>

theorem queries_never_nil_nil:
  "GetValidators CallContext1 worm blockNumber \<noteq> Returned None None
   \<and> GetAccountInfo CallContext2 worm address block \<noteq> Returned None None
   \<and> GetBlockBeneficiaryAddressByNumber CallContext3 worm block \<noteq> Returned None None
   \<and> (\<forall>conn. c worm = Some conn
         \<and> CallContext1 conn ''eth_getValidator'' [rpc_BlockNumber blockNumber] = (None, None)
        \<longrightarrow> GetValidators CallContext1 worm blockNumber = Returned None (Some NotFound))
   \<and> (\<forall>conn. c worm = Some conn
         \<and> CallContext2 conn ''eth_getAccountInfo''
              [common_HexToAddress address, rpc_BlockNumberOrHashWithNumber (rpc_BlockNumber block)]
             = (None, None)
        \<longrightarrow> GetAccountInfo CallContext2 worm address block = Returned None (Some NotFound))
   \<and> (\<forall>conn. c worm = Some conn
         \<and> CallContext3 conn ''eth_getBlockBeneficiaryAddressByNumber''
              [rpc_BlockNumber block, Bool_arg True] = (None, None)
        \<longrightarrow> GetBlockBeneficiaryAddressByNumber CallContext3 worm block
              = Returned None (Some NotFound))"
proof -
  have v: "GetValidators CallContext1 worm blockNumber \<noteq> Returned None None"
    by (cases "c worm")
       (simp_all add: GetValidators_def Let_def split_beta null_guard_never_nil_nil)
  have a: "GetAccountInfo CallContext2 worm address block \<noteq> Returned None None"
    by (cases "c worm")
       (simp_all add: GetAccountInfo_def Let_def split_beta null_guard_never_nil_nil)
  have b: "GetBlockBeneficiaryAddressByNumber CallContext3 worm block \<noteq> Returned None None"
    by (cases "c worm")
       (simp_all add: GetBlockBeneficiaryAddressByNumber_def Let_def split_beta
          null_guard_never_nil_nil)
  show ?thesis
    using v a b
    by (simp add: GetValidators_def GetAccountInfo_def GetBlockBeneficiaryAddressByNumber_def)
qed

theorem queries_never_nil_nil_witness:
  "GetValidators null_node demo_client 7 = Returned None (Some NotFound)
   \<and> GetAccountInfo null_node demo_client ''0x8724fd5d3e4a63e0017b8a2a4fC775B91166eD8d'' 7
       = Returned None (Some NotFound)
   \<and> GetBlockBeneficiaryAddressByNumber null_node demo_client 7 = Returned None (Some NotFound)"
proof -
  have conn: "c demo_client = Some ()" by (simp add: demo_client_def)
  have null: "null_node () m args = (None, None)" for m args
    by (simp add: null_node_def)
  show ?thesis
    using queries_never_nil_nil [of null_node demo_client 7 null_node
            "''0x8724fd5d3e4a63e0017b8a2a4fC775B91166eD8d''" 7 null_node] conn null
    by blast
qed

end
